theory Spec2Isabelle
  imports Complex_Main "HOL-Library.AList" "HOL-Library.Log_Nat" "HOL-Library.Multiset"
begin

section \<open>Overload pay calculator: the data-processing function of peachy2.py\<close>

text \<open>
  The development embeds \<^verbatim>\<open>process_data\<close> of \<^verbatim>\<open>src/peachy2.py\<close> and the two
  helper functions nested in it, \<^verbatim>\<open>is_relevant_course\<close> and \<^verbatim>\<open>get_base_students\<close>.

  Modelling decisions, each visible in the definitions below:
  \<^item> A pandas data frame is a list of column names and a list of rows; a row is an
    association list from column names to cells, as \<^verbatim>\<open>to_dict('records')\<close> yields it.
    A missing key reads as \<open>NaN\<close>, as it does when pandas builds a frame from dicts.
  \<^item> A cell is a string, a number, a Python boolean or the missing value \<open>NaN\<close>.
  \<^item> A number is the rational that a finite binary64 or int64 value denotes. Arithmetic on
    floats returns the exact result rounded to the nearest binary64 number, ties to even
    (\<open>fl\<close>); the cast to int64 and the integer sums wrap as the machine does. Infinities
    are outside the model: the input and the parser hold finite numbers only. On a count
    that pandas reads as infinite the cast of line 90 raises and the run returns nothing;
    a product that overflows binary64 is not modelled either. The subtraction of line 89
    is modelled as the float one; on an int64 column pandas subtracts exactly, which is
    the same for counts up to \<open>2^53\<close>.
  \<^item> The string-to-number parser inside \<^verbatim>\<open>pd.to_numeric\<close> is library code; it is the
    parameter \<open>parse\<close> of every function that reaches it.
  \<^item> \<^verbatim>\<open>str.upper\<close> is modelled on ASCII letters; every other byte is left as it is.
  \<^item> The sidebar values \<^verbatim>\<open>pay_rate\<close>, \<^verbatim>\<open>number_of_weeks\<close> and \<^verbatim>\<open>school_name\<close>, module-level
    variables in the source, are passed as a record.
  \<^item> Every exception that the \<^verbatim>\<open>try\<close> block of \<^verbatim>\<open>process_data\<close> catches, and every
    \<^verbatim>\<open>return None\<close>, is an error value.
\<close>

subsection \<open>Cells, rows, data frames\<close>

datatype cell = Str string | Num rat | Bool bool | NaN

type_synonym row = "(string \<times> cell) list"

record dataframe =
  columns :: "string list"
  rws :: "row list"

text \<open>\<^verbatim>\<open>row[col]\<close> in a frame built from dicts: a missing key is \<open>NaN\<close>.\<close>

definition get :: "row \<Rightarrow> string \<Rightarrow> cell" where
  "get r c = (case map_of r c of Some v \<Rightarrow> v | None \<Rightarrow> NaN)"

text \<open>Storing a cell: an existing key keeps its place, a new key goes to the end.\<close>

definition put :: "string \<Rightarrow> cell \<Rightarrow> row \<Rightarrow> row" where
  "put c v r = AList.update c v r"

text \<open>
  \<^verbatim>\<open>df[col] = f(df)\<close>: the column assignment of pandas, computed row by row. A column
  that is not there yet is appended to the column index.
\<close>

definition assign :: "string \<Rightarrow> (row \<Rightarrow> cell) \<Rightarrow> dataframe \<Rightarrow> dataframe" where
  "assign c f df =
     \<lparr>columns = (if c \<in> set (columns df) then columns df else columns df @ [c]),
      rws = map (\<lambda>r. put c (f r) r) (rws df)\<rparr>"

subsection \<open>Strings\<close>

definition upper_char :: "char \<Rightarrow> char" where
  "upper_char c =
     (case map_of (zip ''abcdefghijklmnopqrstuvwxyz'' ''ABCDEFGHIJKLMNOPQRSTUVWXYZ'') c of
        Some u \<Rightarrow> u
      | None \<Rightarrow> c)"

definition upper :: "string \<Rightarrow> string" where
  "upper s = map upper_char s"

fun starts_with :: "string \<Rightarrow> string \<Rightarrow> bool" where
  "starts_with [] s = True"
| "starts_with (p # ps) [] = False"
| "starts_with (p # ps) (x # xs) = (p = x \<and> starts_with ps xs)"

text \<open>\<^verbatim>\<open>needle in s\<close> on Python strings.\<close>

fun contains :: "string \<Rightarrow> string \<Rightarrow> bool" where
  "contains needle [] = (needle = [])"
| "contains needle (x # xs) = (starts_with needle (x # xs) \<or> contains needle xs)"

subsection \<open>Configuration and errors\<close>

record config =
  pay_rate :: rat
  number_of_weeks :: int
  school_name :: string

datatype error =
    MissingColumn string
  | NoRelevantCourses
  | IndexError
  | KeyError string
  | TypeError

subsection \<open>Schema validation (lines 31-35)\<close>

definition required_columns :: "string list" where
  "required_columns = [''Course Title'', ''Staff Name'', ''Total Students'']"

text \<open>The \<^verbatim>\<open>for col in required_columns\<close> loop: it returns at the first missing column.\<close>

fun check_columns :: "string list \<Rightarrow> dataframe \<Rightarrow> error + dataframe" where
  "check_columns [] df = Inr df"
| "check_columns (col # cols) df =
     (if col \<notin> set (columns df) then Inl (MissingColumn col) else check_columns cols df)"

definition validator :: "dataframe \<Rightarrow> error + dataframe" where
  "validator df = check_columns required_columns df"

subsection \<open>Type normalisation (lines 38-47)\<close>

text \<open>
  \<^verbatim>\<open>pd.to_numeric(_, errors='coerce')\<close> on one cell: a number stays, a boolean counts as
  0 or 1, a string is parsed and becomes \<open>NaN\<close> when the parser rejects it.
\<close>

fun to_numeric :: "(string \<Rightarrow> rat option) \<Rightarrow> cell \<Rightarrow> cell" where
  "to_numeric parse (Num x) = Num x"
| "to_numeric parse (Bool b) = Num (if b then 1 else 0)"
| "to_numeric parse NaN = NaN"
| "to_numeric parse (Str s) = (case parse s of Some x \<Rightarrow> Num x | None \<Rightarrow> NaN)"

text \<open>\<^verbatim>\<open>fillna(0)\<close> on one cell.\<close>

definition fillna0 :: "cell \<Rightarrow> cell" where
  "fillna0 c = (if c = NaN then Num 0 else c)"

text \<open>The loop of lines 38-40, one column at a time.\<close>

definition convert_column :: "(string \<Rightarrow> rat option) \<Rightarrow> string \<Rightarrow> dataframe \<Rightarrow> dataframe" where
  "convert_column parse col df =
     (if col \<in> set (columns df) then assign col (\<lambda>r. to_numeric parse (get r col)) df else df)"

text \<open>Lines 38-44: both count columns are converted, only \<^verbatim>\<open>Total Students\<close> is filled.\<close>

definition normalizer :: "(string \<Rightarrow> rat option) \<Rightarrow> dataframe \<Rightarrow> dataframe" where
  "normalizer parse df =
     (let df1 = convert_column parse ''Max Students'' (convert_column parse ''Total Students'' df)
      in if ''Total Students'' \<in> set (columns df1)
         then assign ''Total Students'' (\<lambda>r. fillna0 (get r ''Total Students'')) df1
         else df1)"

text \<open>Line 47: \<^verbatim>\<open>df.dropna(subset=[...])\<close> builds a new frame without the rows that miss a value.\<close>

definition dropna :: "string list \<Rightarrow> dataframe \<Rightarrow> dataframe" where
  "dropna cols df = df\<lparr>rws := filter (\<lambda>r. \<forall>c \<in> set cols. get r c \<noteq> NaN) (rws df)\<rparr>"

subsection \<open>Eligibility (lines 50-64)\<close>

definition has_keyword :: "string \<Rightarrow> bool" where
  "has_keyword title =
     (contains ''MUSIC'' title \<or> contains ''PHYS ED'' title \<or> contains ''ART'' title
      \<or> contains ''CREATIVE'' title)"

text \<open>\<^verbatim>\<open>pd.to_numeric(students, errors='coerce') > 0\<close> on one cell; \<open>NaN > 0\<close> is false.\<close>

definition positive :: "(string \<Rightarrow> rat option) \<Rightarrow> cell \<Rightarrow> bool" where
  "positive parse c = (case to_numeric parse c of Num x \<Rightarrow> 0 < x | _ \<Rightarrow> False)"

text \<open>
  The nested function. The parameter \<open>title\<close> is rebound to its upper-case form on line 53,
  and line 59 selects the rows whose stored title equals that rebound value; \<^verbatim>\<open>.iloc[0]\<close>
  on an empty selection raises \<^verbatim>\<open>IndexError\<close>, which line 61 turns into \<^verbatim>\<open>False\<close>.
\<close>

fun is_relevant_course :: "(string \<Rightarrow> rat option) \<Rightarrow> dataframe \<Rightarrow> cell \<Rightarrow> bool" where
  "is_relevant_course parse df (Str t) =
     (let title = upper t in
      if \<not> has_keyword title then False
      else (case filter (\<lambda>r. get r ''Course Title'' = Str title) (rws df) of
              [] \<Rightarrow> False
            | r # _ \<Rightarrow> positive parse (get r ''Total Students'')))"
| "is_relevant_course parse df _ = False"

text \<open>Line 64: the boolean mask, then \<^verbatim>\<open>.copy()\<close>.\<close>

definition eligibility_filter :: "(string \<Rightarrow> rat option) \<Rightarrow> dataframe \<Rightarrow> dataframe" where
  "eligibility_filter parse df =
     df\<lparr>rws := filter (\<lambda>r. is_relevant_course parse df (get r ''Course Title'')) (rws df)\<rparr>"

subsection \<open>Thresholds (lines 71-84)\<close>

fun get_base_students :: "cell \<Rightarrow> int" where
  "get_base_students (Str t) =
     (let title = upper t in
      if contains ''MIXED'' title \<or> contains '' 1'' title \<or> contains '' 2'' title
         \<or> contains '' 3'' title then 23
      else if contains '' 4'' title \<or> contains '' 5'' title then 26
      else if contains ''KINDER'' title \<or> contains '' K'' title then 22
      else 23)"
| "get_base_students _ = 23"

definition threshold_resolver :: "dataframe \<Rightarrow> dataframe" where
  "threshold_resolver df =
     assign ''Base Students'' (\<lambda>r. Num (of_int (get_base_students (get r ''Course Title'')))) df"

subsection \<open>Binary64 arithmetic\<close>

text \<open>
  \<open>pow2 e\<close> is \<open>2^e\<close> for an integer \<open>e\<close>, and \<open>ilog2 x\<close> the exponent of the binade of
  \<open>x\<close>: the integer \<open>e\<close> with \<open>2^e \<le> \<bar>x\<bar> < 2^(e + 1)\<close>, found from the bit lengths of
  numerator and denominator.
\<close>

definition pow2 :: "int \<Rightarrow> rat" where
  "pow2 e = (if 0 \<le> e then 2 ^ nat e else 1 / 2 ^ nat (- e))"

definition ilog2 :: "rat \<Rightarrow> int" where
  "ilog2 x =
     (let (p, q) = quotient_of \<bar>x\<bar>; d = bitlen p - bitlen q
      in if pow2 d \<le> \<bar>x\<bar> then d else d - 1)"

text \<open>\<^verbatim>\<open>np.rint\<close>: the nearest integer, a tie going to the even one.\<close>

definition rint :: "rat \<Rightarrow> int" where
  "rint x =
     (let f = \<lfloor>x\<rfloor>; d = x - of_int f
      in if d < 1 / 2 then f else if 1 / 2 < d then f + 1 else if even f then f else f + 1)"

text \<open>
  Rounding to binary64: 53 significant bits, the spacing \<open>2^(e - 52)\<close> in the binade of
  exponent \<open>e\<close>, and the fixed spacing \<open>2^(-1074)\<close> below \<open>2^(-1022)\<close>.
\<close>

definition fl :: "rat \<Rightarrow> rat" where
  "fl x =
     (if x = 0 then 0
      else let e = max (ilog2 x) (- 1022); u = pow2 (e - 52)
           in of_int (rint (x / u)) * u)"

definition fadd :: "rat \<Rightarrow> rat \<Rightarrow> rat" where
  "fadd a b = fl (a + b)"

definition fsub :: "rat \<Rightarrow> rat \<Rightarrow> rat" where
  "fsub a b = fl (a - b)"

definition fmul :: "rat \<Rightarrow> rat \<Rightarrow> rat" where
  "fmul a b = fl (a * b)"

definition fdiv :: "rat \<Rightarrow> rat \<Rightarrow> rat" where
  "fdiv a b = fl (a / b)"

subsection \<open>Overload and pay (lines 87-94)\<close>

text \<open>
  The numeric value of a cell of a numeric column. Lines 87-88 make both operand columns
  numeric before they are read.
\<close>

fun number :: "cell \<Rightarrow> rat" where
  "number (Num x) = x"
| "number (Bool b) = (if b then 1 else 0)"
| "number _ = 0"

text \<open>\<^verbatim>\<open>pd.to_numeric(_, errors='coerce').fillna(0)\<close> on one cell.\<close>

definition numeric0 :: "(string \<Rightarrow> rat option) \<Rightarrow> cell \<Rightarrow> cell" where
  "numeric0 parse c = fillna0 (to_numeric parse c)"

text \<open>
  \<^verbatim>\<open>.astype(int)\<close> on a float64 column: the C cast to int64, which truncates towards zero.
  A value outside the range of int64 has no defined result in C; the conversion
  instruction of x86-64 returns \<open>-2^63\<close>, and pandas silences the warning of numpy.
\<close>

definition astype_int :: "rat \<Rightarrow> int" where
  "astype_int x =
     (let t = (if 0 \<le> x then \<lfloor>x\<rfloor> else \<lceil>x\<rceil>)
      in if - (2 ^ 63) \<le> t \<and> t < 2 ^ 63 then t else - (2 ^ 63))"

text \<open>
  \<^verbatim>\<open>.round(2)\<close> of numpy: multiply by 100, round to the nearest integer, divide by 100,
  each step a float operation.
\<close>

definition round2 :: "rat \<Rightarrow> rat" where
  "round2 x = fdiv (of_int (rint (fmul x 100))) 100"

text \<open>
  Lines 93-94 on one overload: the int64 value becomes a float, is multiplied by the rate
  and then by the number of weeks, and the product is rounded.
\<close>

definition overload_pay :: "config \<Rightarrow> rat \<Rightarrow> rat" where
  "overload_pay cfg overload =
     round2 (fmul (fmul (fl overload) (pay_rate cfg)) (fl (of_int (number_of_weeks cfg))))"

definition overload_calculator ::
  "(string \<Rightarrow> rat option) \<Rightarrow> config \<Rightarrow> dataframe \<Rightarrow> dataframe" where
  "overload_calculator parse cfg df =
     (let d1 = assign ''Total Students'' (\<lambda>r. numeric0 parse (get r ''Total Students'')) df;
          d2 = assign ''Base Students'' (\<lambda>r. numeric0 parse (get r ''Base Students'')) d1;
          d3 = assign ''Total Overload''
                 (\<lambda>r. Num (of_int (astype_int
                    (max 0 (fsub (number (get r ''Total Students''))
                                 (number (get r ''Base Students'')))))))
                 d2
      in assign ''Overload Pay''
           (\<lambda>r. Num (overload_pay cfg (number (get r ''Total Overload''))))
           d3)"

subsection \<open>Sorting and grouping (lines 97-108)\<close>

fun str_le :: "string \<Rightarrow> string \<Rightarrow> bool" where
  "str_le [] ys = True"
| "str_le (x # xs) [] = False"
| "str_le (x # xs) (y # ys) =
     (if x = y then str_le xs ys else (of_char x :: nat) < of_char y)"

definition is_str :: "cell \<Rightarrow> bool" where
  "is_str c = (case c of Str s \<Rightarrow> True | _ \<Rightarrow> False)"

text \<open>The order of sort keys; missing keys go last (\<^verbatim>\<open>na_position='last'\<close>).\<close>

definition key_le :: "cell \<Rightarrow> cell \<Rightarrow> bool" where
  "key_le a b =
     (if b = NaN then True
      else if a = NaN then False
      else (case (a, b) of
              (Str x, Str y) \<Rightarrow> str_le x y
            | _ \<Rightarrow> number a \<le> number b))"

fun insort_by :: "('a \<Rightarrow> cell) \<Rightarrow> 'a \<Rightarrow> 'a list \<Rightarrow> 'a list" where
  "insort_by key x [] = [x]"
| "insort_by key x (y # ys) =
     (if key_le (key x) (key y) then x # y # ys else y # insort_by key x ys)"

definition sort_by :: "('a \<Rightarrow> cell) \<Rightarrow> 'a list \<Rightarrow> 'a list" where
  "sort_by key xs = foldr (insort_by key) xs []"

text \<open>
  Python refuses to order a string against a number: sorting a column that holds both
  raises \<^verbatim>\<open>TypeError\<close>.
\<close>

definition sortable :: "cell list \<Rightarrow> bool" where
  "sortable ks =
     (let present = filter (\<lambda>k. k \<noteq> NaN) ks
      in (\<forall>k \<in> set present. is_str k) \<or> (\<forall>k \<in> set present. \<not> is_str k))"

definition sort_values :: "string \<Rightarrow> dataframe \<Rightarrow> error + dataframe" where
  "sort_values col df =
     (if \<not> sortable (map (\<lambda>r. get r col) (rws df)) then Inl TypeError
      else Inr (df\<lparr>rws := sort_by (\<lambda>r. get r col) (rws df)\<rparr>))"

text \<open>\<^verbatim>\<open>groupby(col)\<close>: the distinct keys in ascending order, missing keys dropped.\<close>

definition group_keys :: "string \<Rightarrow> dataframe \<Rightarrow> cell list" where
  "group_keys col df =
     sort_by (\<lambda>k. k) (remdups (filter (\<lambda>k. k \<noteq> NaN) (map (\<lambda>r. get r col) (rws df))))"

definition group_rows :: "string \<Rightarrow> dataframe \<Rightarrow> cell \<Rightarrow> row list" where
  "group_rows col df k = filter (\<lambda>r. get r col = k) (rws df)"

text \<open>The numbers that a sum over a group adds: missing cells are skipped.\<close>

definition column_values :: "string \<Rightarrow> row list \<Rightarrow> rat list" where
  "column_values c rs = map number (filter (\<lambda>v. v \<noteq> NaN) (map (\<lambda>r. get r c) rs))"

text \<open>An int64 sum wraps around: the exact sum reduced to the range from \<open>-2^63\<close>.\<close>

definition wrap64 :: "int \<Rightarrow> int" where
  "wrap64 n = (n + 2 ^ 63) mod 2 ^ 64 - 2 ^ 63"

definition int64_sum :: "rat list \<Rightarrow> rat" where
  "int64_sum xs = of_int (wrap64 (sum_list (map floor xs)))"

text \<open>
  The float sum of \<^verbatim>\<open>groupby(...).sum()\<close> is the compensated (Kahan) summation of pandas'
  \<^verbatim>\<open>group_sum\<close>: a running sum and a running compensation.
\<close>

definition kahan_step :: "rat \<times> rat \<Rightarrow> rat \<Rightarrow> rat \<times> rat" where
  "kahan_step acc val =
     (let sumx = fst acc; compensation = snd acc;
          y = fsub val compensation;
          t = fadd sumx y
      in (t, fsub (fsub t sumx) y))"

definition group_sum :: "rat list \<Rightarrow> rat" where
  "group_sum xs = fst (foldl kahan_step (0, 0) xs)"

text \<open>
  The float sum of \<^verbatim>\<open>Series.sum()\<close> is numpy's pairwise summation: fewer than 8 numbers are
  added from left to right; up to 128 numbers go through eight running sums, which are
  combined as a tree, before the rest is added; a longer list is split in two.
\<close>

fun blocks :: "nat \<Rightarrow> rat list \<Rightarrow> rat list list" where
  "blocks 0 xs = []"
| "blocks (Suc k) xs = take 8 xs # blocks k (drop 8 xs)"

definition unrolled_sum :: "rat list \<Rightarrow> rat" where
  "unrolled_sum xs =
     (let k = length xs div 8;
          r = foldl (map2 fadd) (take 8 xs) (blocks (k - 1) (drop 8 xs));
          res = (case r of
                   [r0, r1, r2, r3, r4, r5, r6, r7] \<Rightarrow>
                     fadd (fadd (fadd r0 r1) (fadd r2 r3)) (fadd (fadd r4 r5) (fadd r6 r7))
                 | _ \<Rightarrow> 0)
      in foldl fadd res (drop (8 * k) xs))"

function pairwise_sum :: "rat list \<Rightarrow> rat" where
  "pairwise_sum xs =
     (if length xs < 8 then foldl fadd 0 xs
      else if length xs \<le> 128 then unrolled_sum xs
      else fadd (pairwise_sum (take (length xs div 2 - length xs div 2 mod 8) xs))
                (pairwise_sum (drop (length xs div 2 - length xs div 2 mod 8) xs)))"
  by pat_completeness auto
termination
  by (relation "measure length") auto

definition series_sum :: "rat list \<Rightarrow> rat" where
  "series_sum xs = fadd 0 (pairwise_sum xs)"

text \<open>
  Lines 100-102: one row per staff member, the key back as a column; \<^verbatim>\<open>Total Overload\<close> is
  an int64 column, \<^verbatim>\<open>Overload Pay\<close> a float64 column.
\<close>

definition staff_total_row :: "dataframe \<Rightarrow> cell \<Rightarrow> row" where
  "staff_total_row df k =
     [(''Staff Name'', k),
      (''Total Overload'',
         Num (int64_sum (column_values ''Total Overload'' (group_rows ''Staff Name'' df k)))),
      (''Overload Pay'',
         Num (group_sum (column_values ''Overload Pay'' (group_rows ''Staff Name'' df k))))]"

definition staff_totals :: "dataframe \<Rightarrow> dataframe" where
  "staff_totals df =
     \<lparr>columns = [''Staff Name'', ''Total Overload'', ''Overload Pay''],
      rws = map (staff_total_row df) (group_keys ''Staff Name'' df)\<rparr>"

record grand_total =
  totalOverload :: rat
  overloadPay :: rat

text \<open>Lines 105-108: \<^verbatim>\<open>Series.sum()\<close> counts a missing cell as 0.\<close>

definition grand_total_of :: "dataframe \<Rightarrow> grand_total" where
  "grand_total_of st =
     \<lparr>totalOverload = int64_sum (map (\<lambda>r. number (get r ''Total Overload'')) (rws st)),
      overloadPay = series_sum (map (\<lambda>r. number (get r ''Overload Pay'')) (rws st))\<rparr>"

subsection \<open>The report rows (lines 111-139)\<close>

text \<open>\<^verbatim>\<open>group.to_dict('records')\<close>: one dict per row, keyed by the frame's columns.\<close>

definition to_dict :: "string list \<Rightarrow> row \<Rightarrow> row" where
  "to_dict cols r = map (\<lambda>c. (c, get r c)) cols"

definition summary_row :: "cell \<Rightarrow> row \<Rightarrow> row" where
  "summary_row staff_name summary =
     [(''Year'', Str ''''), (''Organization'', Str ''''), (''Course Title'', Str ''TOTAL''),
      (''Staff Name'', staff_name), (''Total Students'', Str ''''), (''Base Students'', Str ''''),
      (''Total Overload'', get summary ''Total Overload''),
      (''Overload Pay'', get summary ''Overload Pay''),
      (''isSummary'', Bool True)]"

definition blank_row :: "string list \<Rightarrow> row" where
  "blank_row cols = put ''isBlank'' (Bool True) (map (\<lambda>c. (c, Str '''')) cols)"

text \<open>
  One turn of the loop of line 114. The summary is looked up in the staff totals with
  \<^verbatim>\<open>.iloc[0]\<close>, which raises \<^verbatim>\<open>IndexError\<close> on an empty selection.
\<close>

definition staff_block :: "dataframe \<Rightarrow> dataframe \<Rightarrow> cell \<Rightarrow> error + row list" where
  "staff_block df st k =
     (case filter (\<lambda>t. get t ''Staff Name'' = k) (rws st) of
        [] \<Rightarrow> Inl IndexError
      | summary # _ \<Rightarrow>
          Inr (map (to_dict (columns df)) (group_rows ''Staff Name'' df k)
               @ [summary_row k summary, blank_row (columns df)]))"

fun final_data_loop ::
  "dataframe \<Rightarrow> dataframe \<Rightarrow> cell list \<Rightarrow> row list \<Rightarrow> error + row list" where
  "final_data_loop df st [] final_data = Inr final_data"
| "final_data_loop df st (k # ks) final_data =
     (case staff_block df st k of
        Inl e \<Rightarrow> Inl e
      | Inr block \<Rightarrow> final_data_loop df st ks (final_data @ block))"

definition final_data :: "dataframe \<Rightarrow> dataframe \<Rightarrow> error + row list" where
  "final_data df st = final_data_loop df st (group_keys ''Staff Name'' df) []"

text \<open>\<^verbatim>\<open>pd.DataFrame(records)\<close>: the columns are the keys, in order of first appearance.\<close>

definition frame_of_records :: "row list \<Rightarrow> dataframe" where
  "frame_of_records rs =
     \<lparr>columns = rev (remdups (rev (concat (map (map fst) rs)))), rws = rs\<rparr>"

subsection \<open>The non-zero view (lines 142-151)\<close>

text \<open>Lines 142-145: a flag column that no record brought is added, filled with \<^verbatim>\<open>False\<close>.\<close>

definition ensure_flag :: "string \<Rightarrow> dataframe \<Rightarrow> dataframe" where
  "ensure_flag c df = (if c \<notin> set (columns df) then assign c (\<lambda>r. Bool False) df else df)"

text \<open>\<^verbatim>\<open>x == True\<close> in Python: true of \<^verbatim>\<open>True\<close> and of the number 1.\<close>

definition eq_true :: "cell \<Rightarrow> bool" where
  "eq_true c = (c = Bool True \<or> c = Num 1)"

text \<open>
  Lines 147-151. The three masks are computed in full before they are combined.
  \<^verbatim>\<open>final_df["Total Overload"]\<close> raises \<^verbatim>\<open>KeyError\<close> when the frame has no such column.
  \<^verbatim>\<open>_ > 0\<close> on a column that holds a string compares that string with \<^verbatim>\<open>0\<close>, which
  Python 3 refuses with \<^verbatim>\<open>TypeError\<close>; pandas passes the exception on for the ordering
  comparisons.
\<close>

definition non_zero_view :: "dataframe \<Rightarrow> error + dataframe" where
  "non_zero_view final_df =
     (if ''Total Overload'' \<notin> set (columns final_df) then Inl (KeyError ''Total Overload'')
      else if \<exists>r \<in> set (rws final_df). is_str (get r ''Total Overload'') then Inl TypeError
      else Inr (final_df\<lparr>rws :=
             filter (\<lambda>r. eq_true (get r ''isBlank'') \<or> eq_true (get r ''isSummary'')
                          \<or> 0 < number (get r ''Total Overload''))
                    (rws final_df)\<rparr>))"

subsection \<open>The whole function (lines 28-169)\<close>

record results =
  out_data :: dataframe
  out_staff_totals :: dataframe
  out_grand_total :: grand_total
  out_non_zero_data :: dataframe

text \<open>
  Every \<open>Inl\<close> is a \<^verbatim>\<open>return None\<close> of the source: after \<^verbatim>\<open>st.error\<close> for a missing column,
  after \<^verbatim>\<open>st.warning\<close> for an empty selection, and in the \<^verbatim>\<open>except Exception\<close> handler of
  line 167 for everything raised inside the \<^verbatim>\<open>try\<close> block. Lines 154-158 only show a hint
  in the sidebar and are left out.
\<close>

definition aggregator :: "dataframe \<Rightarrow> error + results" where
  "aggregator relevant =
     (case sort_values ''Staff Name'' relevant of
        Inl e \<Rightarrow> Inl e
      | Inr relevant_courses \<Rightarrow>
          let totals = staff_totals relevant_courses;
              grand = grand_total_of totals
          in (case final_data relevant_courses totals of
                Inl e \<Rightarrow> Inl e
              | Inr records \<Rightarrow>
                  let final_df = ensure_flag ''isSummary''
                                   (ensure_flag ''isBlank'' (frame_of_records records))
                  in (case non_zero_view final_df of
                        Inl e \<Rightarrow> Inl e
                      | Inr non_zero_df \<Rightarrow>
                          Inr \<lparr>out_data = final_df, out_staff_totals = totals,
                               out_grand_total = grand, out_non_zero_data = non_zero_df\<rparr>)))"

definition process_data ::
  "(string \<Rightarrow> rat option) \<Rightarrow> config \<Rightarrow> dataframe \<Rightarrow> error + results" where
  "process_data parse cfg df0 =
     (case validator df0 of
        Inl e \<Rightarrow> Inl e
      | Inr checked \<Rightarrow>
          let df = dropna [''Course Title'', ''Total Students''] (normalizer parse checked);
              relevant = eligibility_filter parse df
          in if rws relevant = [] then Inl NoRelevantCourses
             else aggregator (overload_calculator parse cfg (threshold_resolver relevant)))"

subsection \<open>Which object each statement writes\<close>

text \<open>
  The frames of one call are objects. \<open>Caller\<close> is the frame the caller passes in, which
  the parameter \<^verbatim>\<open>df\<close> names until line 47 rebinds it to \<open>Dropped\<close>, the frame \<^verbatim>\<open>dropna\<close>
  builds. \<open>Relevant\<close> is the \<^verbatim>\<open>.copy()\<close> of line 64. \<open>Totals\<close>, \<open>Final\<close> and \<open>NonZero\<close> are the
  three frames of the returned dict. A statement \<^verbatim>\<open>x[col] = ...\<close> writes into the object
  that \<^verbatim>\<open>x\<close> names; \<^verbatim>\<open>x = f(x)\<close> makes a new object and leaves the old one as it was.
\<close>

datatype ref = Caller | Dropped | Relevant | Totals | Final | NonZero

type_synonym heap = "ref \<Rightarrow> dataframe option"

definition frame_at :: "heap \<Rightarrow> ref \<Rightarrow> dataframe" where
  "frame_at h p = (case h p of Some d \<Rightarrow> d | None \<Rightarrow> \<lparr>columns = [], rws = []\<rparr>)"

text \<open>Lines 38-44: \<^verbatim>\<open>df[col] = ...\<close> while \<^verbatim>\<open>df\<close> still names the caller's frame.\<close>

definition normalizer_st :: "(string \<Rightarrow> rat option) \<Rightarrow> heap \<Rightarrow> heap" where
  "normalizer_st parse h = h(Caller \<mapsto> normalizer parse (frame_at h Caller))"

text \<open>Line 47: \<^verbatim>\<open>df = df.dropna(...)\<close>.\<close>

definition dropna_st :: "heap \<Rightarrow> heap" where
  "dropna_st h =
     h(Dropped \<mapsto> dropna [''Course Title'', ''Total Students''] (frame_at h Caller))"

text \<open>Line 64: \<^verbatim>\<open>relevant_courses = df[...].copy()\<close>.\<close>

definition eligibility_filter_st :: "(string \<Rightarrow> rat option) \<Rightarrow> heap \<Rightarrow> heap" where
  "eligibility_filter_st parse h =
     h(Relevant \<mapsto> eligibility_filter parse (frame_at h Dropped))"

text \<open>Line 84: \<^verbatim>\<open>relevant_courses["Base Students"] = ...\<close>.\<close>

definition threshold_resolver_st :: "heap \<Rightarrow> heap" where
  "threshold_resolver_st h = h(Relevant \<mapsto> threshold_resolver (frame_at h Relevant))"

text \<open>Lines 87-94: four more assignments into \<^verbatim>\<open>relevant_courses\<close>.\<close>

definition overload_calculator_st ::
  "(string \<Rightarrow> rat option) \<Rightarrow> config \<Rightarrow> heap \<Rightarrow> heap" where
  "overload_calculator_st parse cfg h =
     h(Relevant \<mapsto> overload_calculator parse cfg (frame_at h Relevant))"

text \<open>
  Lines 97-165: \<^verbatim>\<open>sort_values\<close>, \<^verbatim>\<open>groupby\<close> and \<^verbatim>\<open>pd.DataFrame\<close> build new frames; those that
  are returned become reachable, the others are dropped with the call.
\<close>

definition aggregator_st :: "heap \<Rightarrow> heap \<times> (error + results)" where
  "aggregator_st h =
     (case aggregator (frame_at h Relevant) of
        Inl e \<Rightarrow> (h, Inl e)
      | Inr out \<Rightarrow>
          (h(Totals \<mapsto> out_staff_totals out, Final \<mapsto> out_data out,
             NonZero \<mapsto> out_non_zero_data out),
           Inr out))"

definition process_data_st ::
  "(string \<Rightarrow> rat option) \<Rightarrow> config \<Rightarrow> heap \<Rightarrow> heap \<times> (error + results)" where
  "process_data_st parse cfg h =
     (case validator (frame_at h Caller) of
        Inl e \<Rightarrow> (h, Inl e)
      | Inr checked \<Rightarrow>
          let h3 = eligibility_filter_st parse (dropna_st (normalizer_st parse h))
          in if rws (frame_at h3 Relevant) = [] then (h3, Inl NoRelevantCourses)
             else aggregator_st (overload_calculator_st parse cfg (threshold_resolver_st h3)))"

subsection \<open>Names for the statements\<close>

text \<open>
  The frame \<^verbatim>\<open>relevant_courses\<close> as it stands after line 94, for a table that passed
  validation.
\<close>

definition relevant_courses :: "(string \<Rightarrow> rat option) \<Rightarrow> config \<Rightarrow> dataframe \<Rightarrow> dataframe" where
  "relevant_courses parse cfg df =
     overload_calculator parse cfg
       (threshold_resolver
          (eligibility_filter parse
             (dropna [''Course Title'', ''Total Students''] (normalizer parse df))))"

text \<open>The records that line 116 adds for one staff member.\<close>

definition detail_records :: "dataframe \<Rightarrow> cell \<Rightarrow> row list" where
  "detail_records df k = map (to_dict (columns df)) (group_rows ''Staff Name'' df k)"

text \<open>The rows of a report that carry neither flag, by the test of lines 148-149.\<close>

definition detail_rows :: "row list \<Rightarrow> row list" where
  "detail_rows records =
     filter (\<lambda>r. \<not> eq_true (get r ''isBlank'') \<and> \<not> eq_true (get r ''isSummary'')) records"

subsection \<open>The threshold ladder as the specification words it\<close>

text \<open>
  The rules in priority order, each a list of substrings and the value it gives; the first
  rule with a substring in the upper-cased title wins, and 23 is the value when no rule
  matches or the title is not a string.
\<close>

definition threshold_rules :: "(string list \<times> int) list" where
  "threshold_rules =
     [([''MIXED'', '' 1'', '' 2'', '' 3''], 23),
      (['' 4'', '' 5''], 26),
      ([''KINDER'', '' K''], 22)]"

definition rule_matches :: "string \<Rightarrow> string list \<times> int \<Rightarrow> bool" where
  "rule_matches title rule = list_ex (\<lambda>needle. contains needle title) (fst rule)"

definition base_students_spec :: "cell \<Rightarrow> int" where
  "base_students_spec c =
     (case c of
        Str t \<Rightarrow> (case find (rule_matches (upper t)) threshold_rules of
                    Some rule \<Rightarrow> snd rule
                  | None \<Rightarrow> 23)
      | _ \<Rightarrow> 23)"

subsection \<open>Concrete inputs\<close>

text \<open>A parser for unsigned decimal integers, to stand for the library's parser in examples.\<close>

definition digit_of :: "char \<Rightarrow> nat option" where
  "digit_of c = map_of (zip ''0123456789'' [0, 1, 2, 3, 4, 5, 6, 7, 8, 9]) c"

fun parse_digits :: "nat \<Rightarrow> string \<Rightarrow> nat option" where
  "parse_digits acc [] = Some acc"
| "parse_digits acc (c # cs) =
     (case digit_of c of None \<Rightarrow> None | Some d \<Rightarrow> parse_digits (10 * acc + d) cs)"

definition parse_decimal :: "string \<Rightarrow> rat option" where
  "parse_decimal s = (if s = [] then None else map_option of_nat (parse_digits 0 s))"

text \<open>The defaults of the sidebar: 1.25 per student, 4 weeks.\<close>

definition default_config :: config where
  "default_config = \<lparr>pay_rate = 5 / 4, number_of_weeks = 4, school_name = ''''\<rparr>"

text \<open>One physical-education class of 30.\<close>

definition phys_ed_frame :: dataframe where
  "phys_ed_frame =
     \<lparr>columns = [''Course Title'', ''Staff Name'', ''Total Students''],
      rws = [[(''Course Title'', Str ''PHYS ED 3''), (''Staff Name'', Str ''J. Doe''),
              (''Total Students'', Num 30)]]\<rparr>"

text \<open>One music class of 30 whose title is not written in capitals.\<close>

definition mixed_case_frame :: dataframe where
  "mixed_case_frame =
     \<lparr>columns = [''Course Title'', ''Staff Name'', ''Total Students''],
      rws = [[(''Course Title'', Str ''Music 3''), (''Staff Name'', Str ''J. Doe''),
              (''Total Students'', Num 30)]]\<rparr>"

text \<open>A frame without the staff column.\<close>

definition no_staff_frame :: dataframe where
  "no_staff_frame =
     \<lparr>columns = [''Course Title'', ''Total Students''],
      rws = [[(''Course Title'', Str ''ART 1''), (''Total Students'', Num 30)]]\<rparr>"

text \<open>A frame whose two count columns hold text that is not a number.\<close>

definition unparsed_frame :: dataframe where
  "unparsed_frame =
     \<lparr>columns = [''Course Title'', ''Staff Name'', ''Total Students'', ''Max Students''],
      rws = [[(''Course Title'', Str ''ART 1''), (''Staff Name'', Str ''J. Doe''),
              (''Total Students'', Str ''many''), (''Max Students'', Str ''none'')]]\<rparr>"

text \<open>One art class with a count of ten quintillion, a whole number below \<open>2^64\<close>.\<close>

definition huge_class_frame :: dataframe where
  "huge_class_frame =
     \<lparr>columns = [''Course Title'', ''Staff Name'', ''Total Students''],
      rws = [[(''Course Title'', Str ''ART 1''), (''Staff Name'', Str ''J. Doe''),
              (''Total Students'', Num 10000000000000000000)]]\<rparr>"

text \<open>A sidebar set to 0.1 for one week; the rate is the float nearest to 0.1.\<close>

definition tenth_config :: config where
  "tenth_config = \<lparr>pay_rate = fl (1 / 10), number_of_weeks = 1, school_name = ''''\<rparr>"

text \<open>
  Three art classes with overloads of 1, 2 and 3: one under a first teacher and two under
  a second; then the same frame after the calculator and the sort.
\<close>

definition three_art_frame :: dataframe where
  "three_art_frame =
     \<lparr>columns = [''Course Title'', ''Staff Name'', ''Total Students''],
      rws = [[(''Course Title'', Str ''ART 1''), (''Staff Name'', Str ''A. Roe''),
              (''Total Students'', Num 24)],
             [(''Course Title'', Str ''ART 2''), (''Staff Name'', Str ''B. Doe''),
              (''Total Students'', Num 25)],
             [(''Course Title'', Str ''ART 3''), (''Staff Name'', Str ''B. Doe''),
              (''Total Students'', Num 26)]]\<rparr>"

definition three_art_ordered :: dataframe where
  "three_art_ordered =
     \<lparr>columns = [''Course Title'', ''Staff Name'', ''Total Students'', ''Base Students'',
                 ''Total Overload'', ''Overload Pay''],
      rws = [[(''Course Title'', Str ''ART 1''), (''Staff Name'', Str ''A. Roe''),
              (''Total Students'', Num 24), (''Base Students'', Num 23),
              (''Total Overload'', Num 1), (''Overload Pay'', Num (fl (1 / 10)))],
             [(''Course Title'', Str ''ART 2''), (''Staff Name'', Str ''B. Doe''),
              (''Total Students'', Num 25), (''Base Students'', Num 23),
              (''Total Overload'', Num 2), (''Overload Pay'', Num (fl (2 / 10)))],
             [(''Course Title'', Str ''ART 3''), (''Staff Name'', Str ''B. Doe''),
              (''Total Students'', Num 26), (''Base Students'', Num 23),
              (''Total Overload'', Num 3), (''Overload Pay'', Num (fl (3 / 10)))]]\<rparr>"




text \<open>
  The physical-education class after the calculator with the default sidebar, and the
  three records the loop of line 114 builds from it: the class, the summary, the blank row.
\<close>

definition phys_ed_relevant :: dataframe where
  "phys_ed_relevant =
     \<lparr>columns = [''Course Title'', ''Staff Name'', ''Total Students'', ''Base Students'',
                 ''Total Overload'', ''Overload Pay''],
      rws = [[(''Course Title'', Str ''PHYS ED 3''), (''Staff Name'', Str ''J. Doe''),
              (''Total Students'', Num 30), (''Base Students'', Num 23),
              (''Total Overload'', Num 7), (''Overload Pay'', Num 35)]]\<rparr>"

definition phys_ed_records :: "row list" where
  "phys_ed_records =
     [[(''Course Title'', Str ''PHYS ED 3''), (''Staff Name'', Str ''J. Doe''),
       (''Total Students'', Num 30), (''Base Students'', Num 23),
       (''Total Overload'', Num 7), (''Overload Pay'', Num 35)],
      [(''Year'', Str ''''), (''Organization'', Str ''''), (''Course Title'', Str ''TOTAL''),
       (''Staff Name'', Str ''J. Doe''), (''Total Students'', Str ''''),
       (''Base Students'', Str ''''), (''Total Overload'', Num 7), (''Overload Pay'', Num 35),
       (''isSummary'', Bool True)],
      [(''Course Title'', Str ''''), (''Staff Name'', Str ''''), (''Total Students'', Str ''''),
       (''Base Students'', Str ''''), (''Total Overload'', Str ''''), (''Overload Pay'', Str ''''),
       (''isBlank'', Bool True)]]"

text \<open>The objects at the start of a call: the caller's frame and nothing else.\<close>

definition caller_only :: "dataframe \<Rightarrow> heap" where
  "caller_only df = (\<lambda>p. if p = Caller then Some df else None)"

section \<open>Properties\<close>

subsection \<open>Reading and writing cells\<close>

lemma get_put: "get (put c v r) c' = (if c' = c then v else get r c')"
  by (simp add: get_def put_def update_conv')

lemma rws_assign: "rws (assign c f df) = map (\<lambda>r. put c (f r) r) (rws df)"
  by (simp add: assign_def)

lemma columns_assign: "set (columns (assign c f df)) = insert c (set (columns df))"
  by (auto simp: assign_def)

lemma rws_convert_column:
  "rws (convert_column parse col df) =
     (if col \<in> set (columns df)
      then map (\<lambda>r. put col (to_numeric parse (get r col)) r) (rws df)
      else rws df)"
  by (simp add: convert_column_def rws_assign)

lemma columns_convert_column: "set (columns (convert_column parse col df)) = set (columns df)"
  by (auto simp: convert_column_def columns_assign)

lemma parse_decimal_examples:
  "parse_decimal ''many'' = None" "parse_decimal ''none'' = None" "parse_decimal ''30'' = Some 30"
  by (simp_all add: parse_decimal_def digit_of_def)

subsection \<open>The validator\<close>

lemma check_columns_Inr: "set cols \<subseteq> set (columns df) \<Longrightarrow> check_columns cols df = Inr df"
  by (induction cols) auto

lemma check_columns_Inl:
  "\<not> set cols \<subseteq> set (columns df) \<Longrightarrow>
   \<exists>pre c post. cols = pre @ c # post \<and> set pre \<subseteq> set (columns df) \<and> c \<notin> set (columns df)
      \<and> check_columns cols df = Inl (MissingColumn c)"
proof (induction cols)
  case Nil
  then show ?case by simp
next
  case (Cons a cols)
  show ?case
  proof (cases "a \<in> set (columns df)")
    case False
    then have "a # cols = [] @ a # cols \<and> set [] \<subseteq> set (columns df) \<and> a \<notin> set (columns df)
       \<and> check_columns (a # cols) df = Inl (MissingColumn a)"
      by simp
    then show ?thesis by blast
  next
    case True
    with Cons.prems have "\<not> set cols \<subseteq> set (columns df)" by auto
    from Cons.IH [OF this] obtain pre c post where
      "cols = pre @ c # post" "set pre \<subseteq> set (columns df)" "c \<notin> set (columns df)"
      "check_columns cols df = Inl (MissingColumn c)"
      by blast
    with True have "a # cols = (a # pre) @ c # post \<and> set (a # pre) \<subseteq> set (columns df)
       \<and> c \<notin> set (columns df) \<and> check_columns (a # cols) df = Inl (MissingColumn c)"
      by simp
    then show ?thesis by blast
  qed
qed

lemma process_data_missing:
  "validator df = Inl e \<Longrightarrow> process_data parse cfg df = Inl e"
  by (simp add: process_data_def)

lemma process_data_st_missing:
  "validator (frame_at h Caller) = Inl e \<Longrightarrow> process_data_st parse cfg h = (h, Inl e)"
  by (simp add: process_data_st_def)

text \<open>
  Claim C7. A table that lacks one of \<^verbatim>\<open>Course Title\<close>, \<^verbatim>\<open>Staff Name\<close>, \<^verbatim>\<open>Total Students\<close> makes
  the run fail with the first missing column in that order: every required column listed
  before the reported one is present. The run returns no result and leaves the caller's
  table and every other object as they were. A table with all three columns passes
  validation unchanged.
\<close>

theorem schema_validator_first_missing:
  "(\<not> set required_columns \<subseteq> set (columns df) \<longrightarrow>
      (\<exists>pre c post. required_columns = pre @ c # post
          \<and> set pre \<subseteq> set (columns df) \<and> c \<notin> set (columns df)
          \<and> validator df = Inl (MissingColumn c)
          \<and> process_data parse cfg df = Inl (MissingColumn c)
          \<and> (\<forall>h. frame_at h Caller = df \<longrightarrow>
                process_data_st parse cfg h = (h, Inl (MissingColumn c)))))
   \<and> (set required_columns \<subseteq> set (columns df) \<longrightarrow> validator df = Inr df)"
proof (intro conjI impI)
  assume "\<not> set required_columns \<subseteq> set (columns df)"
  from check_columns_Inl [OF this] obtain pre c post where
    split: "required_columns = pre @ c # post" "set pre \<subseteq> set (columns df)"
      "c \<notin> set (columns df)"
    and fails: "validator df = Inl (MissingColumn c)"
    unfolding validator_def by blast
  have "\<forall>h. frame_at h Caller = df \<longrightarrow> process_data_st parse cfg h = (h, Inl (MissingColumn c))"
    using fails by (auto intro: process_data_st_missing)
  with split fails process_data_missing [OF fails]
  show "\<exists>pre c post. required_columns = pre @ c # post
          \<and> set pre \<subseteq> set (columns df) \<and> c \<notin> set (columns df)
          \<and> validator df = Inl (MissingColumn c)
          \<and> process_data parse cfg df = Inl (MissingColumn c)
          \<and> (\<forall>h. frame_at h Caller = df \<longrightarrow>
                process_data_st parse cfg h = (h, Inl (MissingColumn c)))"
    by blast
next
  assume "set required_columns \<subseteq> set (columns df)"
  then show "validator df = Inr df"
    unfolding validator_def by (rule check_columns_Inr)
qed

theorem schema_validator_first_missing_witness:
  "\<not> set required_columns \<subseteq> set (columns no_staff_frame)
   \<and> process_data parse_decimal default_config no_staff_frame = Inl (MissingColumn ''Staff Name'')
   \<and> set required_columns \<subseteq> set (columns phys_ed_frame)
   \<and> validator phys_ed_frame = Inr phys_ed_frame"
proof -
  have missing: "\<not> set required_columns \<subseteq> set (columns no_staff_frame)"
    by (simp add: required_columns_def no_staff_frame_def)
  have complete: "set required_columns \<subseteq> set (columns phys_ed_frame)"
    by (simp add: required_columns_def phys_ed_frame_def)
  from schema_validator_first_missing [of no_staff_frame parse_decimal default_config] missing
  obtain pre c post where
    "required_columns = pre @ c # post" "set pre \<subseteq> set (columns no_staff_frame)"
    "c \<notin> set (columns no_staff_frame)"
    and run: "process_data parse_decimal default_config no_staff_frame = Inl (MissingColumn c)"
    by blast
  then have "c = ''Staff Name''"
    by (auto simp: required_columns_def no_staff_frame_def Cons_eq_append_conv)
  with run missing complete
    schema_validator_first_missing [of phys_ed_frame parse_decimal default_config]
  show ?thesis by simp
qed

subsection \<open>The normaliser\<close>

lemma length_normalizer: "length (rws (normalizer parse df)) = length (rws df)"
  by (simp add: normalizer_def Let_def rws_assign rws_convert_column columns_convert_column)

lemma columns_normalizer: "set (columns (normalizer parse df)) = set (columns df)"
  by (auto simp: normalizer_def Let_def columns_assign columns_convert_column)

lemma normalizer_total_students:
  assumes "''Total Students'' \<in> set (columns df)" "i < length (rws df)"
  shows "get (rws (normalizer parse df) ! i) ''Total Students''
         = fillna0 (to_numeric parse (get (rws df ! i) ''Total Students''))"
  using assms
  by (simp add: normalizer_def Let_def rws_assign rws_convert_column columns_convert_column
      get_put)

lemma normalizer_max_students:
  assumes "''Max Students'' \<in> set (columns df)" "i < length (rws df)"
  shows "get (rws (normalizer parse df) ! i) ''Max Students''
         = to_numeric parse (get (rws df ! i) ''Max Students'')"
  using assms
  by (simp add: normalizer_def Let_def rws_assign rws_convert_column columns_convert_column
      get_put)

lemma fillna0_to_numeric: "\<exists>x. fillna0 (to_numeric parse c) = Num x"
  by (cases c) (auto simp: fillna0_def split: option.splits)

text \<open>
  Claim C6, as the code has it. After normalisation every cell of \<^verbatim>\<open>Total Students\<close> is a
  number, and it is zero where the original cell did not parse. A cell of \<^verbatim>\<open>Max Students\<close>
  that does not parse is left as the missing value \<open>NaN\<close>, not zero: line 44 fills the
  \<^verbatim>\<open>Total Students\<close> column only. Neither conversion can fail.
\<close>

theorem normalizer_fills_total_students_only:
  assumes "''Total Students'' \<in> set (columns df)" and "i < length (rws df)"
  shows "length (rws (normalizer parse df)) = length (rws df)
     \<and> (\<exists>x. get (rws (normalizer parse df) ! i) ''Total Students'' = Num x)
     \<and> (to_numeric parse (get (rws df ! i) ''Total Students'') = NaN \<longrightarrow>
          get (rws (normalizer parse df) ! i) ''Total Students'' = Num 0)
     \<and> (''Max Students'' \<in> set (columns df) \<longrightarrow>
          get (rws (normalizer parse df) ! i) ''Max Students''
            = to_numeric parse (get (rws df ! i) ''Max Students''))"
  using assms
  by (simp add: length_normalizer normalizer_total_students normalizer_max_students
      fillna0_to_numeric) (simp add: fillna0_def)

theorem normalizer_fills_total_students_only_witness:
  "''Total Students'' \<in> set (columns unparsed_frame) \<and> 0 < length (rws unparsed_frame)
   \<and> ''Max Students'' \<in> set (columns unparsed_frame)
   \<and> get (rws (normalizer parse_decimal unparsed_frame) ! 0) ''Total Students'' = Num 0
   \<and> get (rws (normalizer parse_decimal unparsed_frame) ! 0) ''Max Students'' = NaN"
proof -
  have cols: "''Total Students'' \<in> set (columns unparsed_frame)"
    "''Max Students'' \<in> set (columns unparsed_frame)"
    and len: "0 < length (rws unparsed_frame)"
    by (simp_all add: unparsed_frame_def)
  have cells: "to_numeric parse_decimal (get (rws unparsed_frame ! 0) ''Total Students'') = NaN"
    "to_numeric parse_decimal (get (rws unparsed_frame ! 0) ''Max Students'') = NaN"
    by (simp_all add: unparsed_frame_def get_def parse_decimal_examples)
  from normalizer_fills_total_students_only [OF cols(1) len, of parse_decimal] cols len cells
  show ?thesis by simp
qed

text \<open>
  The claim as stated fails: the text \<^verbatim>\<open>none\<close> in \<^verbatim>\<open>Max Students\<close> does not parse and the
  normalised cell is \<open>NaN\<close>, not zero.
\<close>

theorem max_students_not_zeroed:
  "parse_decimal ''none'' = None
   \<and> get (rws unparsed_frame ! 0) ''Max Students'' = Str ''none''
   \<and> get (rws (normalizer parse_decimal unparsed_frame) ! 0) ''Max Students'' = NaN
   \<and> get (rws (normalizer parse_decimal unparsed_frame) ! 0) ''Max Students'' \<noteq> Num 0"
  by (simp add: parse_decimal_examples unparsed_frame_def normalizer_def convert_column_def
      assign_def get_def put_def Let_def)

subsection \<open>Thresholds\<close>

text \<open>
  Claim C2. \<^verbatim>\<open>get_base_students\<close> gives, for every title, the value of the first matching
  rule of the ladder: MIXED, " 1", " 2", " 3" give 23; else " 4", " 5" give 26; else KINDER,
  " K" give 22; else 23; a title that is not a string gives 23. The title is upper-cased
  first. For \<^verbatim>\<open>MUSIC KINDER\<close> the value is 22.
\<close>

theorem get_base_students_ladder:
  "get_base_students c = base_students_spec c
   \<and> get_base_students (Str ''MUSIC KINDER'') = 22
   \<and> get_base_students NaN = 23 \<and> get_base_students (Num x) = 23
   \<and> get_base_students (Bool b) = 23"
proof -
  have "get_base_students c = base_students_spec c"
    by (cases c) (simp_all add: base_students_spec_def threshold_rules_def rule_matches_def
        Let_def)
  moreover have "get_base_students (Str ''MUSIC KINDER'') = 22"
    by (simp add: upper_def upper_char_def)
  ultimately show ?thesis by simp
qed

theorem get_base_students_ladder_witness:
  "get_base_students (Str ''Art 5 k'') = base_students_spec (Str ''Art 5 k'')
   \<and> base_students_spec (Str ''Art 5 k'') = 26
   \<and> get_base_students (Str ''Art 3 and 5'') = 23
   \<and> get_base_students (Str ''music k'') = 22"
proof -
  have "base_students_spec (Str ''Art 5 k'') = 26"
    by (simp add: base_students_spec_def threshold_rules_def rule_matches_def upper_def
        upper_char_def)
  moreover have "get_base_students (Str ''Art 3 and 5'') = 23"
    "get_base_students (Str ''music k'') = 22"
    by (simp_all add: upper_def upper_char_def)
  ultimately show ?thesis
    using get_base_students_ladder [of "Str ''Art 5 k''"] by simp
qed

subsection \<open>Eligibility\<close>

lemma first_of_filter:
  "(case filter P xs of [] \<Rightarrow> False | r # rs \<Rightarrow> Q r) = (\<exists>r. find P xs = Some r \<and> Q r)"
  by (induction xs) auto

lemma positive_iff: "positive parse c \<longleftrightarrow> (\<exists>x. to_numeric parse c = Num x \<and> 0 < x)"
  by (auto simp: positive_def split: cell.splits)

lemma is_relevant_course_iff:
  "is_relevant_course parse df (Str t) \<longleftrightarrow>
     has_keyword (upper t) \<and>
     (\<exists>r. find (\<lambda>r. get r ''Course Title'' = Str (upper t)) (rws df) = Some r
          \<and> (\<exists>x. to_numeric parse (get r ''Total Students'') = Num x \<and> 0 < x))"
  by (simp add: Let_def first_of_filter positive_iff)

lemma in_eligibility_filter:
  "r \<in> set (rws (eligibility_filter parse df)) \<longleftrightarrow>
     r \<in> set (rws df) \<and> is_relevant_course parse df (get r ''Course Title'')"
  by (simp add: eligibility_filter_def)

lemma upper_examples:
  "upper ''Music 3'' = ''MUSIC 3''" "upper ''PHYS ED 3'' = ''PHYS ED 3''"
  by (simp_all add: upper_def upper_char_def)

text \<open>
  Claim C10. The enrolment lookup of \<^verbatim>\<open>is_relevant_course\<close> compares the stored titles,
  character for character, with the upper-cased title: a title \<open>t\<close> is relevant exactly
  when its upper-case form has a keyword and the first row whose stored title equals that
  upper-case form has a \<^verbatim>\<open>Total Students\<close> that converts to a number above 0. Hence a row
  whose title differs from its upper-case form is left out of the eligible rows whenever no
  row stores the upper-case form as its title.
\<close>

theorem lookup_compares_with_uppercased_title:
  "(is_relevant_course parse df (Str t) \<longleftrightarrow>
      has_keyword (upper t) \<and>
      (\<exists>r. find (\<lambda>r. get r ''Course Title'' = Str (upper t)) (rws df) = Some r
           \<and> (\<exists>x. to_numeric parse (get r ''Total Students'') = Num x \<and> 0 < x)))
   \<and> (r \<in> set (rws (eligibility_filter parse df)) \<longleftrightarrow>
        r \<in> set (rws df) \<and> is_relevant_course parse df (get r ''Course Title''))
   \<and> (get r ''Course Title'' = Str t \<and> upper t \<noteq> t
        \<and> (\<forall>r' \<in> set (rws df). get r' ''Course Title'' \<noteq> Str (upper t))
       \<longrightarrow> r \<notin> set (rws (eligibility_filter parse df)))"
proof (intro conjI impI)
  show "is_relevant_course parse df (Str t) \<longleftrightarrow>
      has_keyword (upper t) \<and>
      (\<exists>r. find (\<lambda>r. get r ''Course Title'' = Str (upper t)) (rws df) = Some r
           \<and> (\<exists>x. to_numeric parse (get r ''Total Students'') = Num x \<and> 0 < x))"
    by (rule is_relevant_course_iff)
  show "r \<in> set (rws (eligibility_filter parse df)) \<longleftrightarrow>
        r \<in> set (rws df) \<and> is_relevant_course parse df (get r ''Course Title'')"
    by (rule in_eligibility_filter)
next
  assume a: "get r ''Course Title'' = Str t \<and> upper t \<noteq> t
        \<and> (\<forall>r' \<in> set (rws df). get r' ''Course Title'' \<noteq> Str (upper t))"
  then have "find (\<lambda>r. get r ''Course Title'' = Str (upper t)) (rws df) = None"
    by (simp add: find_None_iff)
  then have "\<not> is_relevant_course parse df (Str t)"
    unfolding is_relevant_course_iff by simp
  with a show "r \<notin> set (rws (eligibility_filter parse df))"
    by (simp add: in_eligibility_filter)
qed

theorem lookup_compares_with_uppercased_title_witness:
  "get (hd (rws mixed_case_frame)) ''Course Title'' = Str ''Music 3''
   \<and> upper ''Music 3'' \<noteq> ''Music 3''
   \<and> has_keyword (upper ''Music 3'')
   \<and> hd (rws mixed_case_frame) \<in> set (rws mixed_case_frame)
   \<and> hd (rws mixed_case_frame) \<notin> set (rws (eligibility_filter parse_decimal mixed_case_frame))"
proof -
  have title: "get (hd (rws mixed_case_frame)) ''Course Title'' = Str ''Music 3''"
    and differs: "upper ''Music 3'' \<noteq> ''Music 3''"
    and keyword: "has_keyword (upper ''Music 3'')"
    and member: "hd (rws mixed_case_frame) \<in> set (rws mixed_case_frame)"
    and absent: "\<forall>r' \<in> set (rws mixed_case_frame).
                   get r' ''Course Title'' \<noteq> Str (upper ''Music 3'')"
    by (simp_all add: mixed_case_frame_def get_def upper_examples has_keyword_def)
  from lookup_compares_with_uppercased_title
    [of parse_decimal mixed_case_frame "''Music 3''" "hd (rws mixed_case_frame)"]
    title differs absent
  have "hd (rws mixed_case_frame) \<notin> set (rws (eligibility_filter parse_decimal mixed_case_frame))"
    by blast
  with title differs keyword member show ?thesis by simp
qed

text \<open>
  For a title that is already written in capitals the lookup finds the rows that store
  that very title: such a row is eligible exactly when its title has a keyword and the
  first row with the same title, which need not be the row itself, has a positive
  \<^verbatim>\<open>Total Students\<close>.
\<close>

lemma capital_title_eligibility:
  assumes "upper t = t" and "get r ''Course Title'' = Str t" and "r \<in> set (rws df)"
  shows "r \<in> set (rws (eligibility_filter parse df)) \<longleftrightarrow>
           has_keyword t \<and>
           (\<exists>first. find (\<lambda>r'. get r' ''Course Title'' = Str t) (rws df) = Some first
                    \<and> positive parse (get first ''Total Students''))"
  using assms
  by (simp only: in_eligibility_filter is_relevant_course_iff positive_iff) simp

text \<open>
  Claim C1 at a concrete table. The only row is a music class of 30 titled \<^verbatim>\<open>Music 3\<close>. Its
  title contains \<^verbatim>\<open>MUSIC\<close> when case is ignored, and the first (and only) row with that
  title has 30 students, so the claim makes the row eligible. The code uses the upper-cased
  title \<^verbatim>\<open>MUSIC 3\<close> in the lookup of line 59, finds no row, and drops the class: the run ends
  with the message that no relevant course was found.
\<close>

theorem mixed_case_title_is_dropped:
  "has_keyword (upper ''Music 3'')
   \<and> get (hd (rws mixed_case_frame)) ''Course Title'' = Str ''Music 3''
   \<and> get (hd (rws mixed_case_frame)) ''Total Students'' = Num 30
   \<and> \<not> is_relevant_course parse_decimal (normalizer parse_decimal mixed_case_frame)
          (Str ''Music 3'')
   \<and> rws (eligibility_filter parse_decimal (normalizer parse_decimal mixed_case_frame)) = []
   \<and> process_data parse_decimal default_config mixed_case_frame = Inl NoRelevantCourses"
  by (simp add: upper_examples has_keyword_def mixed_case_frame_def get_def put_def
      process_data_def validator_def required_columns_def normalizer_def convert_column_def
      assign_def dropna_def eligibility_filter_def fillna0_def Let_def)

subsection \<open>Binary64 arithmetic\<close>

lemma rint_of_int: "rint (of_int n) = n"
  by (simp add: rint_def)

lemma pow2_nonneg: "0 \<le> e \<Longrightarrow> pow2 e = 2 ^ nat e"
  by (simp add: pow2_def)

lemma pow2_neg: "e \<le> 0 \<Longrightarrow> pow2 e = 1 / 2 ^ nat (- e)"
  by (simp add: pow2_def)

lemma ilog2_of_int:
  assumes "0 < m"
  shows "ilog2 (of_int m) = bitlen m - 1"
proof -
  have one: "bitlen 1 = 1"
    by (simp add: bitlen_alt_def)
  from assms have len: "1 \<le> bitlen m"
    by (simp add: bitlen_alt_def)
  from bitlen_bounds [OF assms] have "2 ^ nat (bitlen m - 1) \<le> m"
    by simp
  then have "(of_int (2 ^ nat (bitlen m - 1)) :: rat) \<le> of_int m"
    by (simp only: of_int_le_iff)
  with len have "pow2 (bitlen m - 1) \<le> of_int m"
    by (simp add: pow2_nonneg)
  with assms show ?thesis
    by (simp add: ilog2_def one)
qed

text \<open>A whole number of magnitude below \<open>2^53\<close> is a binary64 number.\<close>

lemma fl_of_nat_like:
  assumes "0 < m" and "m < 2 ^ 53"
  shows "fl (of_int m) = of_int m"
proof -
  define e where "e = bitlen m - 1"
  from assms(1) have len: "0 \<le> e"
    by (simp add: bitlen_alt_def e_def)
  from bitlen_bounds [OF assms(1)] assms(2) have "(2 :: int) ^ nat e < 2 ^ 53"
    unfolding e_def by linarith
  from power_less_imp_less_exp [OF _ this] have "nat e < 53"
    by simp
  with len have small: "e - 52 \<le> 0"
    by simp
  define k where "k = nat (- (e - 52))"
  have u: "pow2 (e - 52) = 1 / 2 ^ k"
    using small by (simp add: pow2_neg k_def)
  have il: "ilog2 (of_int m) = e"
    unfolding e_def using assms(1) by (rule ilog2_of_int)
  have mx: "max e (- 1022) = e"
    using len by simp
  have nz: "(of_int m :: rat) \<noteq> 0"
    using assms(1) by simp
  have "of_int m / (1 / 2 ^ k) = (of_int (m * 2 ^ k) :: rat)"
    by simp
  then have "of_int (rint (of_int m / (1 / 2 ^ k))) * (1 / 2 ^ k) = (of_int m :: rat)"
    by (simp only: rint_of_int) simp
  then show ?thesis
    by (simp only: fl_def il mx Let_def u nz if_False)
qed

lemma fl_neg: "fl (- x) = - fl x"
proof -
  have rint_neg: "rint (- y) = - rint y" for y
  proof (cases "y \<in> \<int>")
    case True
    then obtain n where "y = of_int n"
      by (auto elim: Ints_cases)
    then show ?thesis
      by (simp add: rint_of_int flip: of_int_minus)
  next
    case False
    then have "of_int \<lfloor>y\<rfloor> \<noteq> y"
      by (metis Ints_of_int)
    then have strict: "of_int \<lfloor>y\<rfloor> < y"
      by (simp add: less_le)
    from \<open>of_int \<lfloor>y\<rfloor> \<noteq> y\<close> have "y \<noteq> of_int \<lfloor>y\<rfloor>"
      by simp
    then have "\<lfloor>- y\<rfloor> = - \<lfloor>y\<rfloor> - 1"
      by (simp add: floor_minus ceiling_altdef)
    with strict \<open>of_int \<lfloor>y\<rfloor> \<noteq> y\<close> show ?thesis
      by (auto simp: rint_def Let_def)
  qed
  have "ilog2 (- x) = ilog2 x"
    by (simp add: ilog2_def)
  then show ?thesis
    by (simp add: fl_def Let_def rint_neg)
qed

lemma fl_of_int:
  assumes "\<bar>n\<bar> < 2 ^ 53"
  shows "fl (of_int n) = of_int n"
proof (cases n "0 :: int" rule: linorder_cases)
  case equal
  then show ?thesis by (simp add: fl_def)
next
  case greater
  with assms show ?thesis by (simp add: fl_of_nat_like)
next
  case less
  with assms have "fl (of_int (- n)) = of_int (- n)"
    by (intro fl_of_nat_like) simp_all
  then show ?thesis
    by (simp add: fl_neg)
qed

subsection \<open>Overload and pay\<close>

lemma numeric0_Num: "\<exists>x. numeric0 parse c = Num x"
  unfolding numeric0_def by (rule fillna0_to_numeric)

lemma numeric0_of_Num: "numeric0 parse (Num x) = Num x"
  by (simp add: numeric0_def fillna0_def)

lemma astype_int_in_range:
  assumes "\<lfloor>max 0 y\<rfloor> < 2 ^ 63"
  shows "astype_int (max 0 y) = \<lfloor>max 0 y\<rfloor>" and "0 \<le> astype_int (max 0 y)"
proof -
  have "0 \<le> \<lfloor>max 0 y\<rfloor>"
    by simp
  with assms show "astype_int (max 0 y) = \<lfloor>max 0 y\<rfloor>"
    by (simp add: astype_int_def Let_def)
  then show "0 \<le> astype_int (max 0 y)"
    by simp
qed

lemma astype_int_out_of_range:
  assumes "2 ^ 63 \<le> \<lfloor>max 0 y\<rfloor>"
  shows "astype_int (max 0 y) = - (2 ^ 63)"
proof -
  from assms have "\<not> \<lfloor>max 0 y\<rfloor> < 2 ^ 63"
    by simp
  moreover have "0 \<le> max 0 y"
    by simp
  ultimately show ?thesis
    unfolding astype_int_def Let_def by (simp only: if_True simp_thms if_False)
qed

lemma rws_overload_calculator:
  "rws (overload_calculator parse cfg df) =
     map (\<lambda>r.
        let r1 = put ''Total Students'' (numeric0 parse (get r ''Total Students'')) r;
            r2 = put ''Base Students'' (numeric0 parse (get r1 ''Base Students'')) r1;
            r3 = put ''Total Overload''
                   (Num (of_int (astype_int
                      (max 0 (fsub (number (get r2 ''Total Students''))
                                   (number (get r2 ''Base Students'')))))))
                   r2
        in put ''Overload Pay'' (Num (overload_pay cfg (number (get r3 ''Total Overload'')))) r3)
       (rws df)"
  by (simp add: overload_calculator_def Let_def rws_assign)

lemma columns_overload_calculator:
  "set (columns (overload_calculator parse cfg df)) =
     set (columns df) \<union> {''Total Students'', ''Base Students'', ''Total Overload'', ''Overload Pay''}"
  by (auto simp: overload_calculator_def Let_def columns_assign)

lemma rws_threshold_resolver:
  "rws (threshold_resolver df) =
     map (\<lambda>r. put ''Base Students'' (Num (of_int (get_base_students (get r ''Course Title'')))) r)
       (rws df)"
  by (simp add: threshold_resolver_def rws_assign)

text \<open>What the calculator leaves in one row, read column by column.\<close>

lemma calculated_row:
  fixes parse :: "string \<Rightarrow> rat option" and cfg :: config and df :: dataframe and i :: nat
  assumes "i < length (rws df)"
  defines "r \<equiv> rws df ! i"
    and "r' \<equiv> rws (overload_calculator parse cfg (threshold_resolver df)) ! i"
  defines "ts \<equiv> number (numeric0 parse (get r ''Total Students''))"
    and "base \<equiv> get_base_students (get r ''Course Title'')"
  defines "overload \<equiv> astype_int (max 0 (fsub ts (of_int base)))"
  shows "get r' ''Course Title'' = get r ''Course Title''"
    and "get r' ''Staff Name'' = get r ''Staff Name''"
    and "get r' ''Total Students'' = Num ts"
    and "get r' ''Base Students'' = Num (of_int base)"
    and "get r' ''Total Overload'' = Num (of_int overload)"
    and "get r' ''Overload Pay'' = Num (overload_pay cfg (of_int overload))"
proof -
  obtain x where x: "numeric0 parse (get r ''Total Students'') = Num x"
    using numeric0_Num by blast
  have r': "r' = (let r0 = put ''Base Students'' (Num (of_int base)) r;
            r1 = put ''Total Students'' (numeric0 parse (get r0 ''Total Students'')) r0;
            r2 = put ''Base Students'' (numeric0 parse (get r1 ''Base Students'')) r1;
            r3 = put ''Total Overload''
                   (Num (of_int (astype_int
                      (max 0 (fsub (number (get r2 ''Total Students''))
                                   (number (get r2 ''Base Students'')))))))
                   r2
        in put ''Overload Pay'' (Num (overload_pay cfg (number (get r3 ''Total Overload'')))) r3)"
    using assms(1) unfolding r'_def r_def base_def
    by (simp add: rws_overload_calculator rws_threshold_resolver Let_def)
  show "get r' ''Course Title'' = get r ''Course Title''"
    "get r' ''Staff Name'' = get r ''Staff Name''"
    by (simp_all add: r' Let_def get_put)
  show "get r' ''Total Students'' = Num ts"
    by (simp add: r' Let_def get_put ts_def x)
  show "get r' ''Base Students'' = Num (of_int base)"
    by (simp add: r' Let_def get_put numeric0_of_Num)
  show "get r' ''Total Overload'' = Num (of_int overload)"
    by (simp add: r' Let_def get_put numeric0_of_Num ts_def x overload_def)
  show "get r' ''Overload Pay'' = Num (overload_pay cfg (of_int overload))"
    by (simp add: r' Let_def get_put numeric0_of_Num ts_def x overload_def)
qed

lemma length_calculated:
  "length (rws (overload_calculator parse cfg (threshold_resolver df))) = length (rws df)"
  by (simp add: rws_overload_calculator rws_threshold_resolver)

text \<open>
  Within the range of int64 the overload of a row is the float difference of the row's own
  count and the threshold of its title, clipped at zero and cut to a whole number; it is
  not negative. For a whole count between 0 and \<open>2^53\<close> the float difference is the exact
  one.
\<close>

lemma overload_within_int64:
  fixes parse :: "string \<Rightarrow> rat option" and cfg :: config and df :: dataframe and i :: nat
  assumes "i < length (rws df)"
  defines "r \<equiv> rws df ! i"
    and "r' \<equiv> rws (overload_calculator parse cfg (threshold_resolver df)) ! i"
  defines "ts \<equiv> number (numeric0 parse (get r ''Total Students''))"
    and "base \<equiv> get_base_students (get r ''Course Title'')"
  assumes "\<lfloor>max 0 (fsub ts (of_int base))\<rfloor> < 2 ^ 63"
  shows "get r' ''Total Overload'' = Num (of_int \<lfloor>max 0 (fsub ts (of_int base))\<rfloor>)"
    and "0 \<le> \<lfloor>max 0 (fsub ts (of_int base))\<rfloor>"
    and "get r' ''Overload Pay''
           = Num (overload_pay cfg (of_int \<lfloor>max 0 (fsub ts (of_int base))\<rfloor>))"
  using calculated_row(5,6) [OF assms(1), of parse cfg] astype_int_in_range(1) [OF assms(6)]
  unfolding r_def r'_def ts_def base_def by simp_all

lemma base_students_range: "get_base_students c \<in> {22, 23, 26}"
  by (cases c) (simp_all add: Let_def)

lemma whole_count_difference:
  assumes "0 \<le> n" and "n < 2 ^ 53"
  shows "fsub (of_int n) (of_int (get_base_students c)) = of_int (n - get_base_students c)"
proof -
  from base_students_range [of c] assms have "\<bar>n - get_base_students c\<bar> < 2 ^ 53"
    by auto
  from fl_of_int [OF this] show ?thesis
    by (simp add: fsub_def)
qed

lemma phys_ed_floats:
  "fsub 30 23 = 7" "overload_pay default_config 7 = 35"
  by code_simp+

lemma phys_ed_calculated:
  "overload_calculator parse_decimal default_config
     (threshold_resolver
        (eligibility_filter parse_decimal
           (dropna [''Course Title'', ''Total Students'']
              (normalizer parse_decimal phys_ed_frame))))
   = phys_ed_relevant"
  by (simp add: upper_examples has_keyword_def phys_ed_frame_def get_def put_def
      normalizer_def convert_column_def assign_def dropna_def eligibility_filter_def
      fillna0_def Let_def positive_def threshold_resolver_def overload_calculator_def
      numeric0_def astype_int_def phys_ed_floats phys_ed_relevant_def)

lemma huge_class_floats:
  "astype_int (max 0 (fsub 10000000000000000000 23)) = - 9223372036854775808"
  "overload_pay default_config (- 9223372036854775808) = - 46116860184273879040"
  by code_simp+

text \<open>
  Claim C3 at a concrete table: one art class whose count is ten quintillion. The row is
  eligible, its threshold is 23, and the clipped difference is far above the largest
  int64. The cast of line 90 turns it into \<open>-2^63\<close>: the overload of the row is negative,
  and so is its pay, where the claim has an overload that is never negative.
\<close>

theorem huge_count_gives_negative_overload:
  "get (rws huge_class_frame ! 0) ''Total Students'' = Num 10000000000000000000
   \<and> is_relevant_course parse_decimal (normalizer parse_decimal huge_class_frame) (Str ''ART 1'')
   \<and> rws (relevant_courses parse_decimal default_config huge_class_frame)
       = [[(''Course Title'', Str ''ART 1''), (''Staff Name'', Str ''J. Doe''),
           (''Total Students'', Num 10000000000000000000), (''Base Students'', Num 23),
           (''Total Overload'', Num (- 9223372036854775808)),
           (''Overload Pay'', Num (- 46116860184273879040))]]
   \<and> number (get (rws (relevant_courses parse_decimal default_config huge_class_frame) ! 0)
                ''Total Overload'') < 0"
proof -
  have title: "upper ''ART 1'' = ''ART 1''"
    by (simp add: upper_def upper_char_def)
  have rows: "rws (relevant_courses parse_decimal default_config huge_class_frame)
       = [[(''Course Title'', Str ''ART 1''), (''Staff Name'', Str ''J. Doe''),
           (''Total Students'', Num 10000000000000000000), (''Base Students'', Num 23),
           (''Total Overload'', Num (- 9223372036854775808)),
           (''Overload Pay'', Num (- 46116860184273879040))]]"
    by (simp add: relevant_courses_def title has_keyword_def huge_class_frame_def get_def
        put_def normalizer_def convert_column_def assign_def dropna_def eligibility_filter_def
        fillna0_def Let_def positive_def threshold_resolver_def overload_calculator_def
        numeric0_def huge_class_floats)
  have "is_relevant_course parse_decimal (normalizer parse_decimal huge_class_frame)
          (Str ''ART 1'')"
    by (simp add: title has_keyword_def huge_class_frame_def get_def put_def normalizer_def
        convert_column_def assign_def fillna0_def Let_def positive_def)
  moreover have "get (rws huge_class_frame ! 0) ''Total Students'' = Num 10000000000000000000"
    by (simp add: huge_class_frame_def get_def)
  ultimately show ?thesis
    by (simp add: rows get_def)
qed

subsection \<open>Sorting and grouping\<close>

lemma set_insort_by: "set (insort_by key x xs) = insert x (set xs)"
  by (induction xs) auto

lemma set_sort_by: "set (sort_by key xs) = set xs"
  unfolding sort_by_def by (induction xs) (simp_all add: set_insort_by)

lemma mset_insort_by: "mset (insort_by key x xs) = add_mset x (mset xs)"
  by (induction xs) auto

lemma mset_sort_by: "mset (sort_by key xs) = mset xs"
  unfolding sort_by_def by (induction xs) (simp_all add: mset_insort_by)

lemma distinct_insort_by: "distinct (insort_by key x xs) \<longleftrightarrow> x \<notin> set xs \<and> distinct xs"
  by (induction xs) (auto simp: set_insort_by)

lemma distinct_sort_by: "distinct (sort_by key xs) \<longleftrightarrow> distinct xs"
proof (induction xs)
  case Nil
  then show ?case by (simp add: sort_by_def)
next
  case (Cons x xs)
  have "sort_by key (x # xs) = insort_by key x (sort_by key xs)"
    by (simp add: sort_by_def)
  with Cons show ?case
    by (simp add: distinct_insort_by set_sort_by)
qed

lemma distinct_group_keys: "distinct (group_keys col df)"
  by (simp add: group_keys_def distinct_sort_by)

lemma set_group_keys:
  "set (group_keys col df) = {k. k \<noteq> NaN \<and> (\<exists>r \<in> set (rws df). get r col = k)}"
  by (auto simp: group_keys_def set_sort_by)

lemma sort_values_Inr:
  assumes "sort_values col df = Inr ordered"
  shows "columns ordered = columns df" and "set (rws ordered) = set (rws df)"
    and "mset (rws ordered) = mset (rws df)"
  using assms by (auto simp: sort_values_def set_sort_by mset_sort_by split: if_splits)

subsection \<open>Wrapping sums\<close>

lemma wrap64_id: "- (2 ^ 63) \<le> n \<Longrightarrow> n < 2 ^ 63 \<Longrightarrow> wrap64 n = n"
  by (simp add: wrap64_def)

lemma wrap64_add_left: "wrap64 (wrap64 a + b) = wrap64 (a + b)"
proof -
  have "(((a + 2 ^ 63) mod 2 ^ 64 - 2 ^ 63) + b + 2 ^ 63) mod 2 ^ 64
        = ((a + 2 ^ 63) mod 2 ^ 64 + b) mod (2 ^ 64 :: int)"
    by (simp add: algebra_simps)
  also have "\<dots> = (a + 2 ^ 63 + b) mod 2 ^ 64"
    by (rule mod_add_left_eq)
  finally show ?thesis
    by (simp add: wrap64_def algebra_simps)
qed

lemma wrap64_add_right: "wrap64 (a + wrap64 b) = wrap64 (a + b)"
  using wrap64_add_left [of b a] by (simp add: add.commute)

lemma wrap64_sum_list: "wrap64 (sum_list (map wrap64 xs)) = wrap64 (sum_list xs)"
proof (induction xs)
  case Nil
  then show ?case by simp
next
  case (Cons x xs)
  have "wrap64 (wrap64 x + sum_list (map wrap64 xs)) = wrap64 (x + sum_list (map wrap64 xs))"
    by (rule wrap64_add_left)
  also have "\<dots> = wrap64 (x + wrap64 (sum_list (map wrap64 xs)))"
    by (rule wrap64_add_right [symmetric])
  also have "\<dots> = wrap64 (x + wrap64 (sum_list xs))"
    by (simp only: Cons.IH)
  also have "\<dots> = wrap64 (x + sum_list xs)"
    by (rule wrap64_add_right)
  finally show ?case by simp
qed

lemma part_le_sum_list:
  fixes ys :: "int list"
  assumes "\<forall>y \<in> set ys. 0 \<le> y" and "x \<in> set ys"
  shows "x \<le> sum_list ys"
  using assms
proof (induction ys)
  case Nil
  then show ?case by simp
next
  case (Cons y ys)
  then have "0 \<le> sum_list ys"
    by (simp add: sum_list_nonneg)
  with Cons show ?case
    by auto
qed

subsection \<open>Staff totals and the report rows\<close>

lemma get_staff_total_row:
  "get (staff_total_row df k) ''Staff Name'' = k"
  "get (staff_total_row df k) ''Total Overload''
     = Num (int64_sum (column_values ''Total Overload'' (group_rows ''Staff Name'' df k)))"
  "get (staff_total_row df k) ''Overload Pay''
     = Num (group_sum (column_values ''Overload Pay'' (group_rows ''Staff Name'' df k)))"
  by (simp_all add: staff_total_row_def get_def)

lemma filter_key_map:
  assumes "distinct ks" and "k \<in> set ks" and "\<And>k'. f (g k') = k'"
  shows "filter (\<lambda>t. f t = k) (map g ks) = [g k]"
  using assms(1,2)
proof (induction ks)
  case Nil
  then show ?case by simp
next
  case (Cons a ks)
  have none: "k \<notin> set ks \<Longrightarrow> filter (\<lambda>t. f t = k) (map g ks) = []"
    by (auto simp: filter_empty_conv assms(3))
  show ?case
  proof (cases "a = k")
    case True
    with Cons.prems have "k \<notin> set ks" by simp
    with True none show ?thesis by (simp add: assms(3))
  next
    case False
    with Cons show ?thesis by (simp add: assms(3))
  qed
qed

lemma summary_lookup:
  assumes "k \<in> set (group_keys ''Staff Name'' df)"
  shows "filter (\<lambda>t. get t ''Staff Name'' = k) (rws (staff_totals df)) = [staff_total_row df k]"
  unfolding staff_totals_def
  using filter_key_map [OF distinct_group_keys assms, of "\<lambda>t. get t ''Staff Name''"
      "staff_total_row df"]
  by (simp add: get_staff_total_row)

lemma staff_block_Inr:
  assumes "k \<in> set (group_keys ''Staff Name'' df)"
  shows "staff_block df (staff_totals df) k =
           Inr (detail_records df k
                @ [summary_row k (staff_total_row df k), blank_row (columns df)])"
  by (simp add: staff_block_def summary_lookup [OF assms] detail_records_def)

lemma final_data_loop_Inr:
  assumes "set ks \<subseteq> set (group_keys ''Staff Name'' df)"
  shows "final_data_loop df (staff_totals df) ks acc =
           Inr (acc @ concat (map (\<lambda>k. detail_records df k
                  @ [summary_row k (staff_total_row df k), blank_row (columns df)]) ks))"
  using assms
  by (induction ks arbitrary: acc) (simp_all add: staff_block_Inr)

lemma final_data_Inr:
  "final_data df (staff_totals df) =
     Inr (concat (map (\<lambda>k. detail_records df k
            @ [summary_row k (staff_total_row df k), blank_row (columns df)])
          (group_keys ''Staff Name'' df)))"
  unfolding final_data_def using final_data_loop_Inr [of "group_keys ''Staff Name'' df" df "[]"]
  by simp

lemma get_to_dict: "c \<in> set cols \<Longrightarrow> get (to_dict cols r) c = get r c"
proof -
  have "map_of (map (\<lambda>c. (c, f c)) cols) c = (if c \<in> set cols then Some (f c) else None)"
    for f :: "string \<Rightarrow> cell"
    by (induction cols) auto
  then show "c \<in> set cols \<Longrightarrow> get (to_dict cols r) c = get r c"
    by (simp add: get_def to_dict_def)
qed

lemma get_to_dict_absent: "c \<notin> set cols \<Longrightarrow> get (to_dict cols r) c = NaN"
proof -
  have "map_of (map (\<lambda>c. (c, f c)) cols) c = (if c \<in> set cols then Some (f c) else None)"
    for f :: "string \<Rightarrow> cell"
    by (induction cols) auto
  then show "c \<notin> set cols \<Longrightarrow> get (to_dict cols r) c = NaN"
    by (simp add: get_def to_dict_def)
qed

lemma column_values_append:
  "column_values c (xs @ ys) = column_values c xs @ column_values c ys"
  by (simp add: column_values_def)

lemma column_values_concat:
  "column_values c (concat xss) = concat (map (column_values c) xss)"
  by (induction xss) (simp_all add: column_values_append, simp add: column_values_def)

lemma column_values_detail_records:
  "c \<in> set (columns df) \<Longrightarrow>
   column_values c (detail_records df k) = column_values c (group_rows ''Staff Name'' df k)"
  by (simp add: column_values_def detail_records_def comp_def get_to_dict)

lemma column_values_staff_totals:
  "column_values ''Total Overload'' (rws (staff_totals df)) =
     map (\<lambda>k. int64_sum (column_values ''Total Overload'' (group_rows ''Staff Name'' df k)))
       (group_keys ''Staff Name'' df)"
  "column_values ''Overload Pay'' (rws (staff_totals df)) =
     map (\<lambda>k. group_sum (column_values ''Overload Pay'' (group_rows ''Staff Name'' df k)))
       (group_keys ''Staff Name'' df)"
  by (simp_all add: staff_totals_def column_values_def comp_def get_staff_total_row)

lemma numbers_staff_totals:
  "map (\<lambda>r. number (get r ''Total Overload'')) (rws (staff_totals df)) =
     column_values ''Total Overload'' (rws (staff_totals df))"
  "map (\<lambda>r. number (get r ''Overload Pay'')) (rws (staff_totals df)) =
     column_values ''Overload Pay'' (rws (staff_totals df))"
  by (simp_all add: staff_totals_def column_values_def comp_def get_staff_total_row)

lemma int64_sum_nested:
  "int64_sum (map (\<lambda>k. int64_sum (f k)) ks) = int64_sum (concat (map f ks))"
proof -
  have "map floor (map (\<lambda>k. int64_sum (f k)) ks)
        = map wrap64 (map (\<lambda>k. sum_list (map floor (f k))) ks)"
    by (simp add: int64_sum_def comp_def)
  moreover have "sum_list (map floor (concat (map f ks)))
        = sum_list (map (\<lambda>k. sum_list (map floor (f k))) ks)"
    by (induction ks) simp_all
  ultimately show ?thesis
    by (simp only: int64_sum_def wrap64_sum_list)
qed

subsection \<open>The columns and rows that reach the aggregator\<close>

lemma columns_relevant_courses:
  "set (columns (relevant_courses parse cfg df)) =
     set (columns df) \<union> {''Total Students'', ''Base Students'', ''Total Overload'', ''Overload Pay''}"
  by (auto simp: relevant_courses_def columns_overload_calculator threshold_resolver_def
      columns_assign eligibility_filter_def dropna_def columns_normalizer)

text \<open>A run that passes validation and finds a relevant course aggregates that frame.\<close>

lemma process_data_aggregates:
  assumes "set required_columns \<subseteq> set (columns df)"
    and "rws (eligibility_filter parse
           (dropna [''Course Title'', ''Total Students''] (normalizer parse df))) \<noteq> []"
  shows "process_data parse cfg df = aggregator (relevant_courses parse cfg df)"
proof -
  from assms(1) have "validator df = Inr df"
    unfolding validator_def by (rule check_columns_Inr)
  with assms(2) show ?thesis
    by (simp add: process_data_def relevant_courses_def Let_def)
qed


lemma overload_of_row_whole:
  assumes "r \<in> set (rws (overload_calculator parse cfg df))"
  shows "\<exists>n. get r ''Total Overload'' = Num (of_int n)"
  using assms by (auto simp: rws_overload_calculator Let_def get_put)

lemma three_art_pays:
  "fsub 24 23 = 1" "fsub 25 23 = 2" "fsub 26 23 = 3"
  "overload_pay tenth_config 1 = fl (1 / 10)"
  "overload_pay tenth_config 2 = fl (1 / 5)"
  "overload_pay tenth_config 3 = fl (3 / 10)"
  by code_simp+

lemma three_art_sorted:
  "sort_values ''Staff Name'' (relevant_courses parse_decimal tenth_config three_art_frame)
     = Inr three_art_ordered"
  by (simp add: relevant_courses_def three_art_frame_def three_art_ordered_def
      upper_def upper_char_def has_keyword_def get_def put_def normalizer_def
      convert_column_def assign_def dropna_def eligibility_filter_def fillna0_def Let_def
      positive_def threshold_resolver_def overload_calculator_def numeric0_def
      astype_int_def sort_values_def sortable_def sort_by_def key_le_def is_str_def
      three_art_pays)



lemma three_art_keys:
  "group_keys ''Staff Name'' three_art_ordered = [Str ''A. Roe'', Str ''B. Doe'']"
  by (simp add: group_keys_def three_art_ordered_def get_def sort_by_def key_le_def)


lemma three_art_values:
  "column_values ''Total Overload'' (group_rows ''Staff Name'' three_art_ordered (Str ''A. Roe''))
     = [1]"
  "column_values ''Total Overload'' (group_rows ''Staff Name'' three_art_ordered (Str ''B. Doe''))
     = [2, 3]"
  "column_values ''Overload Pay'' (group_rows ''Staff Name'' three_art_ordered (Str ''A. Roe''))
     = [fl (1 / 10)]"
  "column_values ''Overload Pay'' (group_rows ''Staff Name'' three_art_ordered (Str ''B. Doe''))
     = [fl (1 / 5), fl (3 / 10)]"
  by (simp_all add: column_values_def group_rows_def three_art_ordered_def get_def)



lemma art_sums:
  "int64_sum [1] = 1" "int64_sum [2, 3] = 5" "int64_sum [1, 5] = 6" "int64_sum [1, 2, 3] = 6"
  "group_sum [fl (1 / 10)] = fl (1 / 10)"
  "group_sum [fl (1 / 5), fl (3 / 10)] = 1 / 2"
  "series_sum [fl (1 / 10), 1 / 2] = 5404319552844595 / 9007199254740992"
  "series_sum [fl (1 / 10), fl (1 / 5), fl (3 / 10)] = 1351079888211149 / 2251799813685248"
  "fl (1 / 10) + fl (1 / 5) + fl (3 / 10) = 21617278211378381 / 36028797018963968"
  by code_simp+

subsection \<open>Totals\<close>

lemma eq_true_simps:
  "\<not> eq_true NaN" "eq_true (Bool True)" "\<not> eq_true (Str s)"
  by (simp_all add: eq_true_def)

lemma detail_rows_append: "detail_rows (xs @ ys) = detail_rows xs @ detail_rows ys"
  by (simp add: detail_rows_def)

lemma detail_rows_concat: "detail_rows (concat xss) = concat (map detail_rows xss)"
  by (induction xss) (simp_all add: detail_rows_append, simp add: detail_rows_def)

lemma detail_rows_block:
  assumes "''isBlank'' \<notin> set (columns df)" and "''isSummary'' \<notin> set (columns df)"
  shows "detail_rows (detail_records df k
           @ [summary_row k (staff_total_row df k), blank_row (columns df)])
         = detail_records df k"
proof -
  have "detail_rows (detail_records df k) = detail_records df k"
    using assms
    by (simp add: detail_rows_def detail_records_def filter_id_conv get_to_dict_absent
        eq_true_simps)
  moreover have "get (summary_row k t) ''isSummary'' = Bool True" for t
    by (simp add: summary_row_def get_def)
  moreover have "get (blank_row cols) ''isBlank'' = Bool True" for cols
    by (simp add: blank_row_def get_put)
  ultimately show ?thesis
    by (simp add: detail_rows_append) (simp add: detail_rows_def eq_true_simps)
qed

lemma detail_rows_report:
  assumes "''isBlank'' \<notin> set (columns df)" and "''isSummary'' \<notin> set (columns df)"
  shows "detail_rows (concat (map (\<lambda>k. detail_records df k
            @ [summary_row k (staff_total_row df k), blank_row (columns df)]) ks))
         = concat (map (detail_records df) ks)"
  by (simp add: detail_rows_concat comp_def detail_rows_block [OF assms])

lemma column_values_details:
  assumes "c \<in> set (columns df)"
  shows "column_values c (concat (map (detail_records df) ks))
         = concat (map (\<lambda>k. column_values c (group_rows ''Staff Name'' df k)) ks)"
  by (simp add: column_values_concat comp_def column_values_detail_records [OF assms])

text \<open>Whole numbers that are not negative and stay below \<open>2^63\<close> are summed exactly.\<close>

lemma whole_sum_list:
  assumes "\<forall>x \<in> set xs. x \<in> \<int>"
  shows "of_int (sum_list (map floor xs)) = sum_list xs"
  using assms
proof (induction xs)
  case Nil
  then show ?case by simp
next
  case (Cons x xs)
  then have "x \<in> \<int>" by simp
  then have "of_int \<lfloor>x\<rfloor> = x"
    by (auto elim: Ints_cases)
  with Cons show ?case by simp
qed

lemma int64_sum_exact:
  assumes "\<forall>x \<in> set xs. x \<in> \<int>" and "0 \<le> sum_list xs" and "sum_list xs < 2 ^ 63"
  shows "int64_sum xs = sum_list xs"
proof -
  have eq: "(of_int (sum_list (map floor xs)) :: rat) = sum_list xs"
    using assms(1) by (rule whole_sum_list)
  with assms(2) have "(0 :: rat) \<le> of_int (sum_list (map floor xs))"
    by simp
  then have lo: "0 \<le> sum_list (map floor xs)"
    by simp
  from eq assms(3) have "(of_int (sum_list (map floor xs)) :: rat) < of_int (2 ^ 63)"
    by simp
  then have "sum_list (map floor xs) < 2 ^ 63"
    by (simp only: of_int_less_iff)
  with lo have "wrap64 (sum_list (map floor xs)) = sum_list (map floor xs)"
    by (simp add: wrap64_id)
  with eq show ?thesis
    by (simp add: int64_sum_def)
qed

lemma sum_list_concat_map:
  fixes f :: "'a \<Rightarrow> rat list"
  shows "sum_list (concat (map f ks)) = sum_list (map (\<lambda>k. sum_list (f k)) ks)"
  by (induction ks) simp_all

lemma part_le_sum_list_rat:
  fixes ys :: "rat list"
  assumes "\<forall>y \<in> set ys. 0 \<le> y" and "x \<in> set ys"
  shows "x \<le> sum_list ys"
  using assms
proof (induction ys)
  case Nil
  then show ?case by simp
next
  case (Cons y ys)
  then have "0 \<le> sum_list ys"
    by (simp add: sum_list_nonneg)
  with Cons show ?case
    by auto
qed

lemma int64_sums_exact:
  fixes f :: "'a \<Rightarrow> rat list"
  assumes whole: "\<forall>x \<in> set (concat (map f ks)). x \<in> \<int>"
    and nonneg: "\<forall>x \<in> set (concat (map f ks)). 0 \<le> x"
    and bound: "sum_list (concat (map f ks)) < 2 ^ 63"
  shows "map (\<lambda>k. int64_sum (f k)) ks = map (\<lambda>k. sum_list (f k)) ks"
    and "int64_sum (concat (map f ks)) = sum_list (concat (map f ks))"
proof -
  have total: "0 \<le> sum_list (concat (map f ks))"
    using nonneg by (intro sum_list_nonneg) auto
  show "int64_sum (concat (map f ks)) = sum_list (concat (map f ks))"
    using whole total bound by (rule int64_sum_exact)
  have "int64_sum (f k) = sum_list (f k)" if k: "k \<in> set ks" for k
  proof (rule int64_sum_exact)
    show "\<forall>x \<in> set (f k). x \<in> \<int>"
      using whole k by auto
    show lo: "0 \<le> sum_list (f k)"
      using nonneg k by (intro sum_list_nonneg) auto
    have "\<forall>y \<in> set (map (\<lambda>k. sum_list (f k)) ks). 0 \<le> y"
      using nonneg by (auto intro!: sum_list_nonneg)
    moreover have "sum_list (f k) \<in> set (map (\<lambda>k. sum_list (f k)) ks)"
      using k by auto
    ultimately have "sum_list (f k) \<le> sum_list (map (\<lambda>k. sum_list (f k)) ks)"
      by (rule part_le_sum_list_rat)
    with bound show "sum_list (f k) < 2 ^ 63"
      by (simp add: sum_list_concat_map)
  qed
  then show "map (\<lambda>k. int64_sum (f k)) ks = map (\<lambda>k. sum_list (f k)) ks"
    by simp
qed

lemma column_values_whole:
  assumes "\<And>r. r \<in> set rs \<Longrightarrow> \<exists>n. get r c = Num (of_int n)"
  shows "\<forall>x \<in> set (column_values c rs). x \<in> \<int>"
proof
  fix x
  assume "x \<in> set (column_values c rs)"
  then obtain r where "r \<in> set rs" and x: "x = number (get r c)"
    by (auto simp: column_values_def)
  with assms obtain n where "get r c = Num (of_int n)"
    by blast
  with x show "x \<in> \<int>"
    by simp
qed

lemma overloads_whole:
  assumes "sort_values ''Staff Name'' (relevant_courses parse cfg df) = Inr ordered"
  shows "\<forall>x \<in> set (concat (map (\<lambda>k. column_values ''Total Overload''
                 (group_rows ''Staff Name'' ordered k)) ks)). x \<in> \<int>"
proof -
  have "\<exists>n. get r ''Total Overload'' = Num (of_int n)"
    if "r \<in> set (group_rows ''Staff Name'' ordered k)" for r k
  proof -
    from that have "r \<in> set (rws ordered)"
      by (simp add: group_rows_def)
    then have "r \<in> set (rws (relevant_courses parse cfg df))"
      by (simp only: sort_values_Inr(2) [OF assms])
    then show ?thesis
      unfolding relevant_courses_def by (rule overload_of_row_whole)
  qed
  then have "\<forall>x \<in> set (column_values ''Total Overload'' (group_rows ''Staff Name'' ordered k)).
      x \<in> \<int>" for k
    by (intro column_values_whole) blast
  then show ?thesis
    by auto
qed


text \<open>
  Claim C4. Once the eligible rows are sorted, the report is, staff member by staff member,
  that member's detail records, one summary row and one blank row; when the input brings
  no column named \<^verbatim>\<open>isBlank\<close> or \<^verbatim>\<open>isSummary\<close>, the detail records are exactly the report
  rows without a flag. For \<^verbatim>\<open>Total Overload\<close> each staff total is the int64 sum of that
  member's detail records and the grand total is the int64 sum of the staff totals, which
  is the int64 sum of all detail records; when no overload is negative and their sum is
  below \<open>2^63\<close>, the three are the exact sums and agree. For \<^verbatim>\<open>Overload Pay\<close> each staff
  total is the compensated float sum that \<^verbatim>\<open>groupby\<close> takes of that member's detail
  records, and the grand total is the float sum of the staff totals; nothing is said of
  the sum of all detail records, which float addition does not make equal to it.
\<close>

theorem overload_totals_agree_pay_totals_nest:
  assumes "sort_values ''Staff Name'' (relevant_courses parse cfg df) = Inr ordered"
  shows "let totals = staff_totals ordered;
             grand = grand_total_of totals;
             staff = group_keys ''Staff Name'' ordered;
             details = concat (map (detail_records ordered) staff);
             report = concat (map (\<lambda>k. detail_records ordered k
                        @ [summary_row k (staff_total_row ordered k),
                           blank_row (columns ordered)]) staff);
             overloads = column_values ''Total Overload'' details
         in final_data ordered totals = Inr report
          \<and> (''isBlank'' \<notin> set (columns df) \<and> ''isSummary'' \<notin> set (columns df)
               \<longrightarrow> detail_rows report = details)
          \<and> column_values ''Total Overload'' (rws totals)
              = map (\<lambda>k. int64_sum (column_values ''Total Overload'' (detail_records ordered k)))
                  staff
          \<and> totalOverload grand = int64_sum (column_values ''Total Overload'' (rws totals))
          \<and> totalOverload grand = int64_sum overloads
          \<and> ((\<forall>x \<in> set overloads. 0 \<le> x) \<and> sum_list overloads < 2 ^ 63 \<longrightarrow>
                column_values ''Total Overload'' (rws totals)
                  = map (\<lambda>k. sum_list (column_values ''Total Overload''
                                         (detail_records ordered k))) staff
                \<and> totalOverload grand = sum_list (column_values ''Total Overload'' (rws totals))
                \<and> sum_list (column_values ''Total Overload'' (rws totals)) = sum_list overloads)
          \<and> column_values ''Overload Pay'' (rws totals)
              = map (\<lambda>k. group_sum (column_values ''Overload Pay'' (detail_records ordered k)))
                  staff
          \<and> overloadPay grand = series_sum (column_values ''Overload Pay'' (rws totals))"
proof -
  define staff where "staff = group_keys ''Staff Name'' ordered"
  define f where "f = (\<lambda>k. column_values ''Total Overload'' (group_rows ''Staff Name'' ordered k))"
  have cols: "set (columns ordered) =
      set (columns df) \<union> {''Total Students'', ''Base Students'', ''Total Overload'', ''Overload Pay''}"
    using sort_values_Inr(1) [OF assms] by (simp add: columns_relevant_courses)
  then have present: "''Total Overload'' \<in> set (columns ordered)"
    "''Overload Pay'' \<in> set (columns ordered)"
    by simp_all
  have flags: "''isBlank'' \<notin> set (columns ordered) \<and> ''isSummary'' \<notin> set (columns ordered)"
    if "''isBlank'' \<notin> set (columns df) \<and> ''isSummary'' \<notin> set (columns df)"
    using that cols by simp
  have details: "column_values ''Total Overload'' (concat (map (detail_records ordered) staff))
      = concat (map f staff)"
    unfolding f_def by (rule column_values_details [OF present(1)])
  have staff_rows: "column_values ''Total Overload'' (rws (staff_totals ordered))
      = map (\<lambda>k. int64_sum (f k)) staff"
    unfolding f_def staff_def by (rule column_values_staff_totals(1))
  have grand: "totalOverload (grand_total_of (staff_totals ordered))
      = int64_sum (column_values ''Total Overload'' (rws (staff_totals ordered)))"
    by (simp add: grand_total_of_def numbers_staff_totals)
  have nested: "int64_sum (column_values ''Total Overload'' (rws (staff_totals ordered)))
      = int64_sum (concat (map f staff))"
    by (simp only: staff_rows int64_sum_nested)
  have whole: "\<forall>x \<in> set (concat (map f staff)). x \<in> \<int>"
    unfolding f_def by (rule overloads_whole [OF assms])
  have exact: "map (\<lambda>k. int64_sum (f k)) staff = map (\<lambda>k. sum_list (f k)) staff"
      "int64_sum (concat (map f staff)) = sum_list (concat (map f staff))"
    if "(\<forall>x \<in> set (concat (map f staff)). 0 \<le> x) \<and> sum_list (concat (map f staff)) < 2 ^ 63"
    using int64_sums_exact [OF whole, of] that by blast+
  show ?thesis
    unfolding Let_def staff_def [symmetric] details
  proof (intro conjI impI)
    show "final_data ordered (staff_totals ordered) =
        Inr (concat (map (\<lambda>k. detail_records ordered k
               @ [summary_row k (staff_total_row ordered k), blank_row (columns ordered)])
             staff))"
      unfolding staff_def by (rule final_data_Inr)
    show "column_values ''Total Overload'' (rws (staff_totals ordered))
        = map (\<lambda>k. int64_sum (column_values ''Total Overload'' (detail_records ordered k))) staff"
      by (simp add: staff_rows f_def column_values_detail_records [OF present(1)])
    show "totalOverload (grand_total_of (staff_totals ordered))
        = int64_sum (column_values ''Total Overload'' (rws (staff_totals ordered)))"
      by (rule grand)
    show "totalOverload (grand_total_of (staff_totals ordered)) = int64_sum (concat (map f staff))"
      by (simp only: grand nested)
    show "column_values ''Overload Pay'' (rws (staff_totals ordered))
        = map (\<lambda>k. group_sum (column_values ''Overload Pay'' (detail_records ordered k))) staff"
      by (simp add: staff_def column_values_staff_totals(2)
          column_values_detail_records [OF present(2)])
    show "overloadPay (grand_total_of (staff_totals ordered))
        = series_sum (column_values ''Overload Pay'' (rws (staff_totals ordered)))"
      by (simp add: grand_total_of_def numbers_staff_totals)
  next
    assume "''isBlank'' \<notin> set (columns df) \<and> ''isSummary'' \<notin> set (columns df)"
    from flags [OF this]
    show "detail_rows (concat (map (\<lambda>k. detail_records ordered k
               @ [summary_row k (staff_total_row ordered k), blank_row (columns ordered)])
             staff))
          = concat (map (detail_records ordered) staff)"
      by (simp add: detail_rows_report)
  next
    assume a: "(\<forall>x \<in> set (concat (map f staff)). 0 \<le> x)
      \<and> sum_list (concat (map f staff)) < 2 ^ 63"
    show rows: "column_values ''Total Overload'' (rws (staff_totals ordered))
        = map (\<lambda>k. sum_list (column_values ''Total Overload'' (detail_records ordered k))) staff"
      by (simp add: staff_rows exact(1) [OF a])
        (simp add: f_def column_values_detail_records [OF present(1)])
    have sums: "sum_list (column_values ''Total Overload'' (rws (staff_totals ordered)))
        = sum_list (concat (map f staff))"
      by (simp only: staff_rows exact(1) [OF a] sum_list_concat_map)
    then show "sum_list (column_values ''Total Overload'' (rws (staff_totals ordered)))
        = sum_list (concat (map f staff))" .
    show "totalOverload (grand_total_of (staff_totals ordered))
        = sum_list (column_values ''Total Overload'' (rws (staff_totals ordered)))"
      by (simp only: grand nested exact(2) [OF a] sums)
  qed
qed

theorem overload_totals_agree_pay_totals_nest_witness:
  "sort_values ''Staff Name'' (relevant_courses parse_decimal tenth_config three_art_frame)
     = Inr three_art_ordered
   \<and> ''isBlank'' \<notin> set (columns three_art_frame)
   \<and> ''isSummary'' \<notin> set (columns three_art_frame)
   \<and> group_keys ''Staff Name'' three_art_ordered = [Str ''A. Roe'', Str ''B. Doe'']
   \<and> column_values ''Total Overload''
        (concat (map (detail_records three_art_ordered)
           (group_keys ''Staff Name'' three_art_ordered))) = [1, 2, 3]
   \<and> column_values ''Total Overload'' (rws (staff_totals three_art_ordered)) = [1, 5]
   \<and> totalOverload (grand_total_of (staff_totals three_art_ordered)) = 6
   \<and> sum_list (column_values ''Total Overload'' (rws (staff_totals three_art_ordered))) = 6
   \<and> column_values ''Overload Pay'' (rws (staff_totals three_art_ordered))
       = [fl (1 / 10), 1 / 2]
   \<and> overloadPay (grand_total_of (staff_totals three_art_ordered))
       = series_sum [fl (1 / 10), 1 / 2]
   \<and> detail_rows
        (concat (map (\<lambda>k. detail_records three_art_ordered k
                   @ [summary_row k (staff_total_row three_art_ordered k),
                      blank_row (columns three_art_ordered)])
           (group_keys ''Staff Name'' three_art_ordered)))
       = concat (map (detail_records three_art_ordered)
           (group_keys ''Staff Name'' three_art_ordered))"
proof -
  have present: "''Total Overload'' \<in> set (columns three_art_ordered)"
    "''Overload Pay'' \<in> set (columns three_art_ordered)"
    by (simp_all add: three_art_ordered_def)
  have overloads: "column_values ''Total Overload''
        (concat (map (detail_records three_art_ordered)
           (group_keys ''Staff Name'' three_art_ordered))) = [1, 2, 3]"
    by (simp add: column_values_append column_values_detail_records [OF present(1)]
        three_art_keys three_art_values)
  have pays: "column_values ''Overload Pay'' (rws (staff_totals three_art_ordered))
       = [fl (1 / 10), 1 / 2]"
    by (simp add: column_values_staff_totals three_art_keys three_art_values art_sums(5,6))
  have flags: "''isBlank'' \<notin> set (columns three_art_frame)"
    "''isSummary'' \<notin> set (columns three_art_frame)"
    by (simp_all add: three_art_frame_def)
  note t = overload_totals_agree_pay_totals_nest [OF three_art_sorted, unfolded Let_def overloads]
  have range: "(\<forall>x \<in> set [1, 2, 3 :: rat]. 0 \<le> x) \<and> sum_list [1, 2, 3 :: rat] < 2 ^ 63"
    by simp
  from t range
  have "column_values ''Total Overload'' (rws (staff_totals three_art_ordered))
          = map (\<lambda>k. sum_list (column_values ''Total Overload''
                                 (detail_records three_art_ordered k)))
              (group_keys ''Staff Name'' three_art_ordered)"
    and "totalOverload (grand_total_of (staff_totals three_art_ordered))
          = sum_list (column_values ''Total Overload'' (rws (staff_totals three_art_ordered)))"
    and "sum_list (column_values ''Total Overload'' (rws (staff_totals three_art_ordered)))
          = sum_list [1, 2, 3]"
    and "overloadPay (grand_total_of (staff_totals three_art_ordered))
          = series_sum (column_values ''Overload Pay'' (rws (staff_totals three_art_ordered)))"
    by blast+
  moreover from t flags
  have "detail_rows
        (concat (map (\<lambda>k. detail_records three_art_ordered k
                   @ [summary_row k (staff_total_row three_art_ordered k),
                      blank_row (columns three_art_ordered)])
           (group_keys ''Staff Name'' three_art_ordered)))
       = concat (map (detail_records three_art_ordered)
           (group_keys ''Staff Name'' three_art_ordered))"
    by blast
  ultimately show ?thesis
    using three_art_sorted flags overloads pays
    by (simp add: three_art_keys column_values_detail_records [OF present(1)] three_art_values)
qed

theorem pay_total_differs_from_detail_sum:
  "sort_values ''Staff Name'' (relevant_courses parse_decimal tenth_config three_art_frame)
     = Inr three_art_ordered
   \<and> column_values ''Overload Pay''
        (concat (map (detail_records three_art_ordered)
           (group_keys ''Staff Name'' three_art_ordered)))
       = [fl (1 / 10), fl (2 / 10), fl (3 / 10)]
   \<and> column_values ''Overload Pay'' (rws (staff_totals three_art_ordered))
       = [fl (1 / 10), 1 / 2]
   \<and> overloadPay (grand_total_of (staff_totals three_art_ordered))
       = 5404319552844595 / 9007199254740992
   \<and> series_sum (column_values ''Overload Pay''
        (concat (map (detail_records three_art_ordered)
           (group_keys ''Staff Name'' three_art_ordered))))
       = 1351079888211149 / 2251799813685248
   \<and> sum_list (column_values ''Overload Pay''
        (concat (map (detail_records three_art_ordered)
           (group_keys ''Staff Name'' three_art_ordered))))
       = 21617278211378381 / 36028797018963968
   \<and> overloadPay (grand_total_of (staff_totals three_art_ordered))
       \<noteq> series_sum (column_values ''Overload Pay''
            (concat (map (detail_records three_art_ordered)
               (group_keys ''Staff Name'' three_art_ordered))))
   \<and> overloadPay (grand_total_of (staff_totals three_art_ordered))
       \<noteq> sum_list (column_values ''Overload Pay''
            (concat (map (detail_records three_art_ordered)
               (group_keys ''Staff Name'' three_art_ordered))))"
proof -
  have present: "''Overload Pay'' \<in> set (columns three_art_ordered)"
    by (simp add: three_art_ordered_def)
  have details: "column_values ''Overload Pay''
        (concat (map (detail_records three_art_ordered)
           (group_keys ''Staff Name'' three_art_ordered)))
       = [fl (1 / 10), fl (1 / 5), fl (3 / 10)]"
    by (simp add: column_values_append column_values_detail_records [OF present]
        three_art_keys three_art_values)
  have pays: "column_values ''Overload Pay'' (rws (staff_totals three_art_ordered))
       = [fl (1 / 10), 1 / 2]"
    by (simp add: column_values_staff_totals three_art_keys three_art_values art_sums(5,6))
  have grand: "overloadPay (grand_total_of (staff_totals three_art_ordered))
       = 5404319552844595 / 9007199254740992"
    by (simp add: grand_total_of_def numbers_staff_totals pays art_sums(7))
  have float_sum: "series_sum (column_values ''Overload Pay''
        (concat (map (detail_records three_art_ordered)
           (group_keys ''Staff Name'' three_art_ordered))))
       = 1351079888211149 / 2251799813685248"
    by (simp only: details art_sums(8))
  have exact_sum: "sum_list (column_values ''Overload Pay''
        (concat (map (detail_records three_art_ordered)
           (group_keys ''Staff Name'' three_art_ordered))))
       = 21617278211378381 / 36028797018963968"
    unfolding details using art_sums(9) by simp
  have "column_values ''Overload Pay''
        (concat (map (detail_records three_art_ordered)
           (group_keys ''Staff Name'' three_art_ordered)))
       = [fl (1 / 10), fl (2 / 10), fl (3 / 10)]"
    using details by simp
  moreover have "(5404319552844595 / 9007199254740992 :: rat)
       \<noteq> 1351079888211149 / 2251799813685248"
    "(5404319552844595 / 9007199254740992 :: rat) \<noteq> 21617278211378381 / 36028797018963968"
    by simp_all
  ultimately show ?thesis
    unfolding float_sum exact_sum grand using three_art_sorted pays by blast
qed



subsection \<open>The non-zero view\<close>

lemma rws_ensure_flag:
  "rws (ensure_flag c df) =
     (if c \<in> set (columns df) then rws df else map (put c (Bool False)) (rws df))"
  by (simp add: ensure_flag_def rws_assign)

lemma columns_ensure_flag: "set (columns (ensure_flag c df)) = insert c (set (columns df))"
  by (auto simp: ensure_flag_def columns_assign)

lemma ensure_flag_keeps:
  assumes "r \<in> set (rws df)" and "c \<noteq> c'"
  shows "\<exists>r' \<in> set (rws (ensure_flag c df)). get r' c' = get r c'"
proof (cases "c \<in> set (columns df)")
  case True
  with assms(1) show ?thesis
    by (auto simp: rws_ensure_flag)
next
  case False
  with assms have "put c (Bool False) r \<in> set (rws (ensure_flag c df))"
    "get (put c (Bool False) r) c' = get r c'"
    by (simp_all add: rws_ensure_flag get_put)
  then show ?thesis by blast
qed

lemma get_blank_row:
  assumes "c \<in> set cols" and "c \<noteq> ''isBlank''"
  shows "get (blank_row cols) c = Str ''''"
proof -
  have "map_of (map (\<lambda>c. (c, Str '''')) cols) c = Some (Str '''')"
    using assms(1) by (induction cols) auto
  with assms(2) show ?thesis
    by (simp add: blank_row_def get_put) (simp add: get_def)
qed

lemma non_zero_view_Inl:
  assumes "r \<in> set (rws final_df)" and "is_str (get r ''Total Overload'')"
  shows "non_zero_view final_df = Inl TypeError
         \<or> non_zero_view final_df = Inl (KeyError ''Total Overload'')"
  using assms by (auto simp: non_zero_view_def)

text \<open>
  Where the comparison of line 150 does go through, the filter keeps rows of the full view
  only, and each row it keeps is flagged blank, flagged summary, or has a positive
  \<^verbatim>\<open>Total Overload\<close>.
\<close>

lemma non_zero_view_rows:
  assumes "non_zero_view final_df = Inr non_zero_df" and "r \<in> set (rws non_zero_df)"
  shows "r \<in> set (rws final_df)"
    and "eq_true (get r ''isBlank'') \<or> eq_true (get r ''isSummary'')
         \<or> 0 < number (get r ''Total Overload'')"
  using assms by (auto simp: non_zero_view_def split: if_splits)

text \<open>
  Every report with a staff member in it has a blank row, and the blank row stores the
  empty string under \<^verbatim>\<open>Total Overload\<close>; a report without staff members has no such column
  at all. Either way line 150 raises, so the aggregator returns nothing for any frame that
  has the column \<^verbatim>\<open>Total Overload\<close>.
\<close>

lemma aggregator_raises:
  assumes "''Total Overload'' \<in> set (columns relevant)"
  shows "\<exists>e. aggregator relevant = Inl e"
proof (cases "sort_values ''Staff Name'' relevant")
  case (Inl e)
  then show ?thesis by (simp add: aggregator_def)
next
  case (Inr ordered)
  define report where "report = concat (map (\<lambda>k. detail_records ordered k
            @ [summary_row k (staff_total_row ordered k), blank_row (columns ordered)])
          (group_keys ''Staff Name'' ordered))"
  define final_df where
    "final_df = ensure_flag ''isSummary'' (ensure_flag ''isBlank'' (frame_of_records report))"
  have agg: "aggregator relevant =
     (case non_zero_view final_df of
        Inl e \<Rightarrow> Inl e
      | Inr non_zero_df \<Rightarrow>
          Inr \<lparr>out_data = final_df, out_staff_totals = staff_totals ordered,
               out_grand_total = grand_total_of (staff_totals ordered),
               out_non_zero_data = non_zero_df\<rparr>)"
    unfolding final_df_def report_def
    by (simp add: aggregator_def Inr final_data_Inr Let_def)
  have col: "''Total Overload'' \<in> set (columns ordered)"
    using sort_values_Inr(1) [OF Inr] assms by simp
  have "\<exists>e. non_zero_view final_df = Inl e"
  proof (cases "group_keys ''Staff Name'' ordered")
    case Nil
    then have "report = []"
      by (simp add: report_def)
    then have "''Total Overload'' \<notin> set (columns final_df)"
      by (simp add: final_df_def columns_ensure_flag frame_of_records_def)
    then show ?thesis
      by (simp add: non_zero_view_def)
  next
    case (Cons k ks)
    then have "blank_row (columns ordered) \<in> set report"
      by (simp add: report_def)
    then have "blank_row (columns ordered) \<in> set (rws (frame_of_records report))"
      by (simp add: frame_of_records_def)
    from ensure_flag_keeps [OF this, of "''isBlank''" "''Total Overload''"]
    obtain r0 where "r0 \<in> set (rws (ensure_flag ''isBlank'' (frame_of_records report)))"
      and r0: "get r0 ''Total Overload'' = get (blank_row (columns ordered)) ''Total Overload''"
      by auto
    from ensure_flag_keeps [OF this(1), of "''isSummary''" "''Total Overload''"] r0
    obtain r where r: "r \<in> set (rws final_df)"
      and same: "get r ''Total Overload'' = get (blank_row (columns ordered)) ''Total Overload''"
      unfolding final_df_def by auto
    from same have "is_str (get r ''Total Overload'')"
      by (simp add: get_blank_row [OF col] is_str_def)
    from non_zero_view_Inl [OF r this] show ?thesis
      by blast
  qed
  with agg show ?thesis
    by auto
qed

lemma process_data_never_returns: "\<exists>e. process_data parse cfg df = Inl e"
proof -
  have "''Total Overload'' \<in> set (columns (overload_calculator parse cfg d))" for d
    by (simp add: columns_overload_calculator)
  from aggregator_raises [OF this] show ?thesis
    by (auto simp: process_data_def Let_def split: sum.splits)
qed

lemma phys_ed_sums: "int64_sum [7] = 7" "group_sum [35] = 35"
  by code_simp+

lemma phys_ed_report:
  "sort_values ''Staff Name'' phys_ed_relevant = Inr phys_ed_relevant"
  "final_data phys_ed_relevant (staff_totals phys_ed_relevant) = Inr phys_ed_records"
  by (simp_all add: phys_ed_relevant_def sort_values_def sortable_def sort_by_def get_def
      is_str_def final_data_def group_keys_def staff_totals_def staff_total_row_def
      staff_block_def group_rows_def column_values_def phys_ed_sums to_dict_def
      summary_row_def blank_row_def put_def phys_ed_records_def)

text \<open>
  Claim C8 at a concrete table: one physical-education class of 30, which has an overload
  of 7. The report is built, with its detail, summary and blank row. The blank row holds
  the empty string under \<^verbatim>\<open>Total Overload\<close>, so the comparison \<^verbatim>\<open>> 0\<close> of line 150 raises
  \<^verbatim>\<open>TypeError\<close>; line 167 catches it and \<^verbatim>\<open>process_data\<close> returns nothing: no non-zero view
  and no full view either.
\<close>

theorem non_zero_view_raises_on_blank_row:
  "final_data phys_ed_relevant (staff_totals phys_ed_relevant) = Inr phys_ed_records
   \<and> get (phys_ed_records ! 0) ''Total Overload'' = Num 7
   \<and> get (phys_ed_records ! 2) ''isBlank'' = Bool True
   \<and> get (phys_ed_records ! 2) ''Total Overload'' = Str ''''
   \<and> non_zero_view
        (ensure_flag ''isSummary'' (ensure_flag ''isBlank'' (frame_of_records phys_ed_records)))
       = Inl TypeError
   \<and> process_data parse_decimal default_config phys_ed_frame = Inl TypeError"
proof -
  have cells: "get (phys_ed_records ! 0) ''Total Overload'' = Num 7"
    "get (phys_ed_records ! 2) ''isBlank'' = Bool True"
    "get (phys_ed_records ! 2) ''Total Overload'' = Str ''''"
    by (simp_all add: phys_ed_records_def get_def)
  have view: "non_zero_view
        (ensure_flag ''isSummary'' (ensure_flag ''isBlank'' (frame_of_records phys_ed_records)))
       = Inl TypeError"
    by (simp add: non_zero_view_def ensure_flag_def frame_of_records_def phys_ed_records_def
        assign_def get_def is_str_def)
  have valid: "validator phys_ed_frame = Inr phys_ed_frame"
    by (simp add: validator_def required_columns_def phys_ed_frame_def)
  have some: "rws (eligibility_filter parse_decimal
            (dropna [''Course Title'', ''Total Students'']
               (normalizer parse_decimal phys_ed_frame))) \<noteq> []"
    by (simp add: upper_examples has_keyword_def phys_ed_frame_def get_def put_def
        normalizer_def convert_column_def assign_def dropna_def eligibility_filter_def
        fillna0_def Let_def positive_def)
  have "aggregator phys_ed_relevant = Inl TypeError"
    by (simp add: aggregator_def phys_ed_report Let_def view)
  with valid some have "process_data parse_decimal default_config phys_ed_frame = Inl TypeError"
    by (simp add: process_data_def Let_def phys_ed_calculated)
  with cells view phys_ed_report(2) show ?thesis
    by simp
qed

subsection \<open>Which objects a call writes\<close>

lemma frame_at_upd: "frame_at (h(p \<mapsto> d)) q = (if q = p then d else frame_at h q)"
  by (simp add: frame_at_def)

lemma frame_at_caller_only: "frame_at (caller_only df) Caller = df"
  by (simp add: frame_at_def caller_only_def)

lemma process_data_st_result:
  "snd (process_data_st parse cfg h) = process_data parse cfg (frame_at h Caller)"
proof (cases "validator (frame_at h Caller)")
  case (Inl e)
  then show ?thesis
    by (simp add: process_data_st_def process_data_def)
next
  case (Inr checked)
  have "check_columns cols df = Inr d \<Longrightarrow> d = df" for cols df d
    by (induction cols) (auto split: if_splits)
  with Inr have "checked = frame_at h Caller"
    by (auto simp: validator_def)
  with Inr show ?thesis
    by (simp add: process_data_st_def process_data_def Let_def eligibility_filter_st_def
        dropna_st_def normalizer_st_def threshold_resolver_st_def overload_calculator_st_def
        aggregator_st_def frame_at_upd split: sum.splits)
qed

lemma aggregator_st_keeps:
  "p \<noteq> Totals \<Longrightarrow> p \<noteq> Final \<Longrightarrow> p \<noteq> NonZero \<Longrightarrow> fst (aggregator_st h) p = h p"
  by (simp add: aggregator_st_def split: sum.splits)

text \<open>
  Claim C9, as the code has it. A run that fails validation writes no object. In a run that
  passes, lines 40 and 44 overwrite the caller's table with its normalised form, in
  place; \<^verbatim>\<open>dropna\<close> and the eligibility filter build new frames, and nothing later writes
  the caller's table or the frame of \<^verbatim>\<open>dropna\<close>; the threshold resolver and the overload
  calculator write their columns into the eligibility filter's copy, in place. Stage by
  stage: the normaliser writes only the caller's frame, \<^verbatim>\<open>dropna\<close> only its new frame, and
  the filter, the resolver and the calculator only the copy.
\<close>

theorem normalizer_writes_callers_frame:
  "(\<forall>e. validator (frame_at h Caller) = Inl e \<longrightarrow> fst (process_data_st parse cfg h) = h)
   \<and> (validator (frame_at h Caller) = Inr (frame_at h Caller) \<longrightarrow>
        (let h' = fst (process_data_st parse cfg h);
             normalized = normalizer parse (frame_at h Caller);
             dropped = dropna [''Course Title'', ''Total Students''] normalized;
             eligible = eligibility_filter parse dropped
         in h' Caller = Some normalized
            \<and> h' Dropped = Some dropped
            \<and> h' Relevant =
                Some (if rws eligible = [] then eligible
                      else overload_calculator parse cfg (threshold_resolver eligible))))
   \<and> (\<forall>p. p \<noteq> Caller \<longrightarrow> normalizer_st parse h p = h p)
   \<and> (\<forall>p. p \<noteq> Dropped \<longrightarrow> dropna_st h p = h p)
   \<and> (\<forall>p. p \<noteq> Relevant \<longrightarrow>
         eligibility_filter_st parse h p = h p \<and> threshold_resolver_st h p = h p
         \<and> overload_calculator_st parse cfg h p = h p)"
proof (intro conjI allI impI)
  fix e assume "validator (frame_at h Caller) = Inl e"
  then show "fst (process_data_st parse cfg h) = h"
    by (simp add: process_data_st_def)
next
  assume valid: "validator (frame_at h Caller) = Inr (frame_at h Caller)"
  define h3 where "h3 = eligibility_filter_st parse (dropna_st (normalizer_st parse h))"
  define normalized where "normalized = normalizer parse (frame_at h Caller)"
  define dropped where "dropped = dropna [''Course Title'', ''Total Students''] normalized"
  define eligible where "eligible = eligibility_filter parse dropped"
  have h3: "h3 Caller = Some normalized" "h3 Dropped = Some dropped" "h3 Relevant = Some eligible"
    by (simp_all add: h3_def eligibility_filter_st_def dropna_st_def normalizer_st_def
        frame_at_upd normalized_def dropped_def eligible_def)
  then have rel: "frame_at h3 Relevant = eligible"
    by (simp add: frame_at_def)
  define h5 where "h5 = overload_calculator_st parse cfg (threshold_resolver_st h3)"
  have h5: "h5 Caller = Some normalized" "h5 Dropped = Some dropped"
    "h5 Relevant = Some (overload_calculator parse cfg (threshold_resolver eligible))"
    by (simp_all add: h5_def overload_calculator_st_def threshold_resolver_st_def frame_at_upd
        h3 rel)
  have run: "fst (process_data_st parse cfg h) =
      (if rws eligible = [] then h3 else fst (aggregator_st h5))"
    using valid by (simp add: process_data_st_def Let_def h3_def [symmetric] rel h5_def)
  show "let h' = fst (process_data_st parse cfg h);
             normalized = normalizer parse (frame_at h Caller);
             dropped = dropna [''Course Title'', ''Total Students''] normalized;
             eligible = eligibility_filter parse dropped
         in h' Caller = Some normalized
            \<and> h' Dropped = Some dropped
            \<and> h' Relevant =
                Some (if rws eligible = [] then eligible
                      else overload_calculator parse cfg (threshold_resolver eligible))"
    unfolding Let_def normalized_def [symmetric] dropped_def [symmetric] eligible_def [symmetric]
    by (simp add: run h3 h5 aggregator_st_keeps)
next
  fix p :: ref assume "p \<noteq> Caller"
  then show "normalizer_st parse h p = h p"
    by (simp add: normalizer_st_def)
next
  fix p :: ref assume "p \<noteq> Dropped"
  then show "dropna_st h p = h p"
    by (simp add: dropna_st_def)
next
  fix p :: ref assume "p \<noteq> Relevant"
  then show "eligibility_filter_st parse h p = h p" "threshold_resolver_st h p = h p"
    "overload_calculator_st parse cfg h p = h p"
    by (simp_all add: eligibility_filter_st_def threshold_resolver_st_def
        overload_calculator_st_def)
qed

lemma unparsed_normalized:
  "normalizer parse_decimal unparsed_frame =
     \<lparr>columns = [''Course Title'', ''Staff Name'', ''Total Students'', ''Max Students''],
      rws = [[(''Course Title'', Str ''ART 1''), (''Staff Name'', Str ''J. Doe''),
              (''Total Students'', Num 0), (''Max Students'', NaN)]]\<rparr>"
  by (simp add: parse_decimal_examples unparsed_frame_def normalizer_def convert_column_def
      assign_def get_def put_def Let_def fillna0_def)

theorem normalizer_writes_callers_frame_witness:
  "validator (frame_at (caller_only unparsed_frame) Caller)
     = Inr (frame_at (caller_only unparsed_frame) Caller)
   \<and> fst (process_data_st parse_decimal default_config (caller_only unparsed_frame)) Caller
       = Some (normalizer parse_decimal unparsed_frame)
   \<and> validator (frame_at (caller_only phys_ed_frame) Caller)
       = Inr (frame_at (caller_only phys_ed_frame) Caller)
   \<and> fst (process_data_st parse_decimal default_config (caller_only phys_ed_frame)) Relevant
       = Some phys_ed_relevant"
proof -
  have valid: "validator (frame_at (caller_only unparsed_frame) Caller)
     = Inr (frame_at (caller_only unparsed_frame) Caller)"
    "validator (frame_at (caller_only phys_ed_frame) Caller)
       = Inr (frame_at (caller_only phys_ed_frame) Caller)"
    by (simp_all add: frame_at_caller_only validator_def required_columns_def
        unparsed_frame_def phys_ed_frame_def)
  have some: "rws (eligibility_filter parse_decimal
            (dropna [''Course Title'', ''Total Students'']
               (normalizer parse_decimal phys_ed_frame))) \<noteq> []"
    by (simp add: upper_examples has_keyword_def phys_ed_frame_def get_def put_def
        normalizer_def convert_column_def assign_def dropna_def eligibility_filter_def
        fillna0_def Let_def positive_def)
  from normalizer_writes_callers_frame
    [of "caller_only unparsed_frame" parse_decimal default_config]
    normalizer_writes_callers_frame
    [of "caller_only phys_ed_frame" parse_decimal default_config]
    valid some
  show ?thesis
    by (simp add: Let_def frame_at_caller_only phys_ed_calculated)
qed

text \<open>
  The claim as stated fails: the caller passes a table whose \<^verbatim>\<open>Total Students\<close> cell is the
  text \<^verbatim>\<open>many\<close>, and after the call that same table holds the number 0 there.
\<close>

theorem callers_frame_is_overwritten:
  "caller_only unparsed_frame Caller = Some unparsed_frame
   \<and> get (rws unparsed_frame ! 0) ''Total Students'' = Str ''many''
   \<and> fst (process_data_st parse_decimal default_config (caller_only unparsed_frame)) Caller
       = Some (normalizer parse_decimal unparsed_frame)
   \<and> get (rws (normalizer parse_decimal unparsed_frame) ! 0) ''Total Students'' = Num 0
   \<and> fst (process_data_st parse_decimal default_config (caller_only unparsed_frame)) Caller
       \<noteq> caller_only unparsed_frame Caller"
proof -
  have valid: "validator unparsed_frame = Inr unparsed_frame"
    by (simp add: validator_def required_columns_def unparsed_frame_def)
  have none: "rws (eligibility_filter parse_decimal
            (dropna [''Course Title'', ''Total Students'']
               (normalizer parse_decimal unparsed_frame))) = []"
    by (simp add: unparsed_normalized dropna_def eligibility_filter_def get_def upper_def
        upper_char_def has_keyword_def positive_def Let_def)
  have after: "fst (process_data_st parse_decimal default_config (caller_only unparsed_frame))
      Caller = Some (normalizer parse_decimal unparsed_frame)"
    by (simp add: process_data_st_def frame_at_caller_only valid Let_def
        eligibility_filter_st_def dropna_st_def normalizer_st_def frame_at_upd none)
  have differ: "normalizer parse_decimal unparsed_frame \<noteq> unparsed_frame"
    by (simp add: unparsed_normalized) (simp add: unparsed_frame_def)
  have cells: "get (rws unparsed_frame ! 0) ''Total Students'' = Str ''many''"
    "get (rws (normalizer parse_decimal unparsed_frame) ! 0) ''Total Students'' = Num 0"
    by (simp_all add: unparsed_normalized) (simp add: unparsed_frame_def get_def, simp add: get_def)
  from after differ cells show ?thesis
    by (simp add: caller_only_def)
qed

end
